theory Spec2Isabelle
  imports Complex_Main "HOL-Library.Word"
begin

section \<open>SKYNOTE weather retrieval: the cache and the fetch-and-normalize flow\<close>

text \<open>
  A shallow embedding of \<^verbatim>\<open>getWeatherData\<close> and of the functions it is built from.

  Conventions of the model.
  \<^item> A JavaScript \<^verbatim>\<open>number\<close> read from JSON is a \<^typ>\<open>real\<close>: arithmetic is exact, the
    rounding of IEEE doubles and NaN are outside the model. The two running extremes of
    the daily aggregation start at \<^verbatim>\<open>-Infinity\<close> and \<^verbatim>\<open>Infinity\<close>, so they have the type
    \<open>number\<close> below, the reals with both infinities.
  \<^item> Timestamps are integers: \<^verbatim>\<open>Date.now()\<close> is a count of milliseconds, the provider's
    \<^verbatim>\<open>dt\<close> a count of seconds. They lie in the range a \<^verbatim>\<open>Date\<close> can hold, so that no
    \<^verbatim>\<open>Date\<close> of the flow is invalid.
  \<^item> A JavaScript string is a list of 16-bit code units. The location and the cache keys,
    on which the code calls \<^verbatim>\<open>trim\<close> and \<^verbatim>\<open>toLowerCase\<close>, have that type (\<open>jsstring\<close>).
    Text that the code only passes on, compares or tests for emptiness (the provider's
    names and condition strings, the labels, the response bodies) is a list of characters.
  \<^item> An optional property is an \<open>option\<close>; a thrown \<^verbatim>\<open>Error\<close> is the \<open>Inl\<close> of a sum.
  \<^item> The module-level \<^verbatim>\<open>weatherCache\<close> and the network are explicit: every function that
    touches the cache takes it and returns it, and the flow returns the list of the
    requests it issued.
\<close>

subsection \<open>Numbers\<close>

datatype number = NegInfinity | Finite real | Infinity

text \<open>\<^verbatim>\<open>Math.max\<close> and \<^verbatim>\<open>Math.min\<close> on two numbers.\<close>

fun Math_max :: "number \<Rightarrow> number \<Rightarrow> number" where
  "Math_max Infinity _ = Infinity"
| "Math_max _ Infinity = Infinity"
| "Math_max NegInfinity y = y"
| "Math_max x NegInfinity = x"
| "Math_max (Finite a) (Finite b) = Finite (max a b)"

fun Math_min :: "number \<Rightarrow> number \<Rightarrow> number" where
  "Math_min NegInfinity _ = NegInfinity"
| "Math_min _ NegInfinity = NegInfinity"
| "Math_min Infinity y = y"
| "Math_min x Infinity = x"
| "Math_min (Finite a) (Finite b) = Finite (min a b)"

text \<open>
  \<^verbatim>\<open>Math.round\<close>: the nearest integer, a tie going up (\<^verbatim>\<open>Math.round(2.5) = 3\<close>,
  \<^verbatim>\<open>Math.round(-2.5) = -2\<close>); an infinity is returned as it is.
\<close>

definition Math_round :: "real \<Rightarrow> real" where
  "Math_round x = of_int \<lfloor>x + 1 / 2\<rfloor>"

fun Math_round_number :: "number \<Rightarrow> number" where
  "Math_round_number (Finite x) = Finite (Math_round x)"
| "Math_round_number NegInfinity = NegInfinity"
| "Math_round_number Infinity = Infinity"

subsection \<open>Strings\<close>

type_synonym code_unit = "16 word"

type_synonym jsstring = "code_unit list"

text \<open>The code units of a text of ASCII characters.\<close>

definition utf16 :: "string \<Rightarrow> jsstring" where
  "utf16 s = map of_char s"

text \<open>
  \<^verbatim>\<open>String.prototype.trim\<close> removes white space and line terminators from both ends: TAB,
  LF, VT, FF, CR, SPACE, NO-BREAK SPACE, OGHAM SPACE MARK, the spaces U+2000 to U+200A,
  LINE and PARAGRAPH SEPARATOR, NARROW NO-BREAK SPACE, MEDIUM MATHEMATICAL SPACE,
  IDEOGRAPHIC SPACE and the byte order mark. Each is one code unit.
\<close>

definition isWhiteSpace :: "code_unit \<Rightarrow> bool" where
  "isWhiteSpace c \<longleftrightarrow>
     c \<in> set [0x0009, 0x000A, 0x000B, 0x000C, 0x000D, 0x0020, 0x00A0, 0x1680, 0x2028, 0x2029,
               0x202F, 0x205F, 0x3000, 0xFEFF]
     \<or> (0x2000 \<le> c \<and> c \<le> 0x200A)"

definition trim :: "jsstring \<Rightarrow> jsstring" where
  "trim s = rev (dropWhile isWhiteSpace (rev (dropWhile isWhiteSpace s)))"

text \<open>
  \<^verbatim>\<open>String.prototype.toLowerCase\<close>. On a string of ASCII code units it replaces \<open>A\<close> to \<open>Z\<close>
  by \<open>a\<close> to \<open>z\<close> and keeps every other code unit. On a string with a code unit outside
  ASCII it applies the lower-case mapping of the Unicode character database, which is not
  part of the repository: that mapping is the parameter \<open>unicode\<close>, a function on whole
  strings, since it depends on the context of a character and can change the length.
\<close>

definition toLowerASCII :: "code_unit \<Rightarrow> code_unit" where
  "toLowerASCII c = (if 0x41 \<le> c \<and> c \<le> 0x5A then c + 0x20 else c)"

definition toLowerCase :: "(jsstring \<Rightarrow> jsstring) \<Rightarrow> jsstring \<Rightarrow> jsstring" where
  "toLowerCase unicode s = (if list_all (\<lambda>c. c < 0x80) s then map toLowerASCII s else unicode s)"

text \<open>The decimal digits of a natural number, without leading zeros.\<close>

fun digits :: "nat \<Rightarrow> string" where
  "digits n =
     (if n < 10 then [''0123456789'' ! n]
      else digits (n div 10) @ [''0123456789'' ! (n mod 10)])"

declare digits.simps [simp del]

text \<open>
  \<^verbatim>\<open>x.toFixed(2)\<close>: with \<open>n\<close> the integer nearest to \<open>100 * |x|\<close> (the larger one on a
  tie), the digits of \<open>n\<close> with a point before the last two, after a minus sign when
  \<open>x < 0\<close>. (From \<open>10\<^sup>2\<^sup>1\<close> on JavaScript prints the exponent form instead; no latitude or
  longitude is that large.)
\<close>

definition toFixed2 :: "real \<Rightarrow> string" where
  "toFixed2 x =
     (let n = nat \<lfloor>\<bar>x\<bar> * 100 + 1 / 2\<rfloor>
      in (if x < 0 then ''-'' else '''') @ digits (n div 100) @ ''.'' @
         [''0123456789'' ! ((n div 10) mod 10), ''0123456789'' ! (n mod 10)])"

subsection \<open>The input and its schema\<close>

record GetWeatherDataInput =
  location :: "jsstring option"
  lat :: "real option"
  lon :: "real option"

text \<open>
  A string in a condition (\<^verbatim>\<open>if (input.location)\<close>, \<^verbatim>\<open>if (cacheKey)\<close>) counts as true
  when it is there and not empty.
\<close>

fun truthy :: "jsstring option \<Rightarrow> bool" where
  "truthy None = False"
| "truthy (Some s) = (s \<noteq> [])"

text \<open>
  The refinement of \<^verbatim>\<open>GetWeatherDataInputSchema\<close>:
  \<^verbatim>\<open>data.location || (typeof data.lat === 'number' && typeof data.lon === 'number')\<close>.
  The flow is checked against the JSON schema of its input schema, which has the three
  optional properties and not this refinement; the body of the flow makes the same test
  itself (\<open>weatherUrl\<close> below) and throws where it fails.
\<close>

definition GetWeatherDataInputSchema :: "GetWeatherDataInput \<Rightarrow> bool" where
  "GetWeatherDataInputSchema data_in \<longleftrightarrow>
     truthy (location data_in) \<or> (lat data_in \<noteq> None \<and> lon data_in \<noteq> None)"

text \<open>
  The spec's wording of the constraint, for comparison: exactly one of
  \<open>location present\<close> and \<open>lat and lon both present\<close>.
\<close>

definition exactlyOneForm :: "GetWeatherDataInput \<Rightarrow> bool" where
  "exactlyOneForm data_in \<longleftrightarrow>
     (location data_in \<noteq> None) \<noteq> (lat data_in \<noteq> None \<and> lon data_in \<noteq> None)"

subsection \<open>Conditions\<close>

datatype WeatherCondition = Sunny | Cloudy | Rainy | Snowy | Thunderstorm | Fog | Haze

text \<open>
  \<^verbatim>\<open>mapping[main]\<close> reads a property of an object literal, so besides the nine own
  properties it finds the properties every object inherits from \<^verbatim>\<open>Object.prototype\<close>.
  Each of those is a function or an object, hence true in \<^verbatim>\<open>mapping[main] || 'Sunny'\<close>.
\<close>

definition objectPrototypeKeys :: "string list" where
  "objectPrototypeKeys =
     [''constructor'', ''__defineGetter__'', ''__defineSetter__'', ''hasOwnProperty'',
      ''__lookupGetter__'', ''__lookupSetter__'', ''isPrototypeOf'',
      ''propertyIsEnumerable'', ''toString'', ''valueOf'', ''__proto__'',
      ''toLocaleString'']"

datatype looked_up = Condition WeatherCondition | Inherited string

definition mapping :: "(string \<times> WeatherCondition) list" where
  "mapping =
     [(''Clear'', Sunny), (''Clouds'', Cloudy), (''Rain'', Rainy), (''Drizzle'', Rainy),
      (''Snow'', Snowy), (''Thunderstorm'', Thunderstorm), (''Mist'', Fog), (''Fog'', Fog),
      (''Haze'', Haze)]"

definition mapWeatherCondition :: "string \<Rightarrow> looked_up" where
  "mapWeatherCondition main =
     (case map_of mapping main of
        Some c \<Rightarrow> Condition c
      | None \<Rightarrow> if main \<in> set objectPrototypeKeys then Inherited main else Condition Sunny)"

subsection \<open>Provider responses\<close>

text \<open>
  The two provider payloads, with the properties the flow reads (\<^verbatim>\<open>coord.lat\<close> is
  \<open>wd_coord_lat\<close>, \<^verbatim>\<open>weather[0].main\<close> is \<open>wd_weather_main\<close>, and so on). A payload that
  lacks one of them is outside the model.
\<close>

record weatherData =
  wd_coord_lat :: real
  wd_coord_lon :: real
  wd_name :: string
  wd_weather_main :: string
  wd_temp :: real
  wd_feels_like :: real
  wd_humidity :: real
  wd_wind_speed :: real
  wd_sunrise :: int
  wd_sunset :: int
  wd_dt :: int

record forecastItem =
  item_dt :: int
  item_weather_main :: string
  item_temp :: real
  item_temp_max :: real
  item_temp_min :: real
  item_humidity :: real
  item_wind_speed :: real

record forecastData =
  city_timezone :: int
  items :: "forecastItem list"

text \<open>
  A request stands for its URL: the current-weather endpoint by name (\<^verbatim>\<open>q=\<close>) or by
  coordinates, and the forecast endpoint by coordinates. A response has the \<^verbatim>\<open>ok\<close> flag,
  the status, the body as text and the body as parsed JSON.
\<close>

datatype request =
  CurrentByName jsstring
| CurrentByCoords real real
| ForecastByCoords real real

record 'a response =
  ok :: bool
  status :: int
  body_text :: string
  json :: 'a

text \<open>
  What the code takes from its surroundings: the network (\<^verbatim>\<open>fetch\<close>, one function for each
  payload type), the lower-case mapping of Unicode for strings outside ASCII,
  \<^verbatim>\<open>Intl.DateTimeFormat\<close> with its two option sets, and \<^verbatim>\<open>format(date, 'EEE')\<close> of date-fns. The three formatters take the date in milliseconds.
  \<^verbatim>\<open>format(date, 'EEE')\<close> returns a weekday abbreviation, which is neither an array index
  nor a property of \<^verbatim>\<open>Object.prototype\<close>: the object \<^verbatim>\<open>dailyForecasts\<close> keeps such keys in
  the order of their insertion.
\<close>

record env =
  fetchWeather :: "request \<Rightarrow> weatherData response"
  fetchForecast :: "request \<Rightarrow> forecastData response"
  unicodeLowerCase :: "jsstring \<Rightarrow> jsstring"
  intlHourMinute :: "int \<Rightarrow> string"
  intlHour :: "int \<Rightarrow> string"
  formatEEE :: "int \<Rightarrow> string"

datatype error =
  MissingLocationError
| WeatherRequestFailed int string
| ForecastRequestFailed int string
| OutputValidationError

subsection \<open>The output\<close>

record DailyData =
  day :: string
  condition :: looked_up
  tempHigh :: number
  tempLow :: number
  humidity :: real

record HourlyData =
  h_time :: string
  h_condition :: looked_up
  h_temperature :: real
  h_windSpeed :: real
  h_humidity :: real

record GetWeatherDataOutput =
  o_location :: string
  o_condition :: looked_up
  o_temperature :: real
  o_feelsLike :: real
  o_humidity :: real
  o_windSpeed :: real
  o_sunrise :: string
  o_sunset :: string
  o_currentTime :: string
  o_forecast :: "DailyData list"
  o_hourly :: "HourlyData list"

text \<open>
  \<^verbatim>\<open>GetWeatherDataOutputSchema\<close>: every condition is one of the seven of the enumeration
  (the strings and numbers of the model are strings and numbers by their types).
\<close>

fun isCondition :: "looked_up \<Rightarrow> bool" where
  "isCondition (Condition _) = True"
| "isCondition (Inherited _) = False"

definition GetWeatherDataOutputSchema :: "GetWeatherDataOutput \<Rightarrow> bool" where
  "GetWeatherDataOutputSchema out \<longleftrightarrow>
     isCondition (o_condition out) \<and>
     list_all (\<lambda>d. isCondition (condition d)) (o_forecast out) \<and>
     list_all (\<lambda>h. isCondition (h_condition h)) (o_hourly out)"

subsection \<open>The cache\<close>

record CacheEntry =
  data :: GetWeatherDataOutput
  expiry :: int

type_synonym cache = "jsstring \<rightharpoonup> CacheEntry"

definition CACHE_TTL_MS :: int where
  "CACHE_TTL_MS = 5 * 60 * 1000"

definition getCacheKey :: "env \<Rightarrow> GetWeatherDataInput \<Rightarrow> jsstring option" where
  "getCacheKey e input_q =
     (case (if truthy (location input_q) then location input_q else None) of
        Some s \<Rightarrow> Some (toLowerCase (unicodeLowerCase e) (trim s))
      | None \<Rightarrow>
          (case (lat input_q, lon input_q) of
             (Some la, Some lo) \<Rightarrow> Some (utf16 (toFixed2 la @ '':'' @ toFixed2 lo))
           | _ \<Rightarrow> None))"

text \<open>The value returned and the cache afterwards; \<open>now\<close> is the reading of \<^verbatim>\<open>Date.now()\<close>.\<close>

definition getCachedWeather :: "int \<Rightarrow> jsstring \<Rightarrow> cache \<Rightarrow> GetWeatherDataOutput option \<times> cache" where
  "getCachedWeather now key weatherCache =
     (case weatherCache key of
        None \<Rightarrow> (None, weatherCache)
      | Some cached \<Rightarrow>
          if expiry cached \<le> now then (None, weatherCache(key := None))
          else (Some (data cached), weatherCache))"

definition setCachedWeather :: "int \<Rightarrow> jsstring \<Rightarrow> GetWeatherDataOutput \<Rightarrow> cache \<Rightarrow> cache" where
  "setCachedWeather now key d weatherCache =
     weatherCache(key \<mapsto> \<lparr>data = d, expiry = now + CACHE_TTL_MS\<rparr>)"

subsection \<open>The flow\<close>

text \<open>
  \<^verbatim>\<open>formatTimeFromTimestamp\<close> shifts the timestamp by the offset and formats it, with the
  default options or with the hour alone. Its \<^verbatim>\<open>catch\<close> branch, the literal \<^verbatim>\<open>N/A\<close>, is taken
  when the formatter throws; the two formatters of \<open>env\<close> stand for the formatter with
  that branch.
\<close>

definition formatTimeFromTimestamp :: "env \<Rightarrow> int \<Rightarrow> int \<Rightarrow> bool \<Rightarrow> string" where
  "formatTimeFromTimestamp e timestamp timezoneOffset hourOnly =
     (if hourOnly then intlHour e else intlHourMinute e) ((timestamp + timezoneOffset) * 1000)"

text \<open>The hourly part: filter, \<^verbatim>\<open>slice(0, 8)\<close>, map.\<close>

definition toHourly :: "env \<Rightarrow> int \<Rightarrow> forecastItem \<Rightarrow> HourlyData" where
  "toHourly e timezoneOffset h =
     \<lparr>h_time = formatTimeFromTimestamp e (item_dt h) timezoneOffset True,
      h_condition = mapWeatherCondition (item_weather_main h),
      h_temperature = Math_round (item_temp h),
      h_windSpeed = Math_round (item_wind_speed h * 3.6),
      h_humidity = Math_round (item_humidity h)\<rparr>"

definition hourly :: "env \<Rightarrow> int \<Rightarrow> int \<Rightarrow> forecastItem list \<Rightarrow> HourlyData list" where
  "hourly e timezoneOffset now xs =
     (let twentyFourHoursFromNow = now + 24 * 60 * 60 * 1000
      in map (toHourly e timezoneOffset)
           (take 8 (filter (\<lambda>h. item_dt h * 1000 \<le> twentyFourHoursFromNow) xs)))"

text \<open>
  The daily part. \<^verbatim>\<open>dailyForecasts\<close> is an object used as a dictionary that keeps the
  insertion order of its keys: a list of pairs with distinct keys. One step of the
  \<^verbatim>\<open>forEach\<close> adds the day when it is new, then updates the day's three running values.
\<close>

definition assign :: "string \<Rightarrow> (DailyData \<Rightarrow> DailyData) \<Rightarrow> (string \<times> DailyData) list \<Rightarrow> (string \<times> DailyData) list" where
  "assign k f kvs = map (\<lambda>(k', v). if k' = k then (k', f v) else (k', v)) kvs"

definition forEachItem :: "env \<Rightarrow> (string \<times> DailyData) list \<Rightarrow> forecastItem \<Rightarrow> (string \<times> DailyData) list" where
  "forEachItem e dailyForecasts item =
     (let d = formatEEE e (item_dt item * 1000);
          df1 = (if map_of dailyForecasts d = None
                 then dailyForecasts @
                      [(d, \<lparr>day = d, condition = mapWeatherCondition (item_weather_main item),
                            tempHigh = NegInfinity, tempLow = Infinity, humidity = 0\<rparr>)]
                 else dailyForecasts);
          df2 = assign d (\<lambda>v. v\<lparr>tempHigh := Math_max (tempHigh v) (Finite (item_temp_max item))\<rparr>) df1;
          df3 = assign d (\<lambda>v. v\<lparr>tempLow := Math_min (tempLow v) (Finite (item_temp_min item))\<rparr>) df2
      in assign d (\<lambda>v. v\<lparr>humidity := (humidity v + item_humidity item) / 2\<rparr>) df3)"

definition dailyForecasts :: "env \<Rightarrow> forecastItem list \<Rightarrow> (string \<times> DailyData) list" where
  "dailyForecasts e xs = foldl (forEachItem e) [] xs"

definition forecast :: "env \<Rightarrow> forecastItem list \<Rightarrow> DailyData list" where
  "forecast e xs =
     map (\<lambda>d. d\<lparr>tempHigh := Math_round_number (tempHigh d),
                tempLow := Math_round_number (tempLow d),
                humidity := Math_round (humidity d)\<rparr>)
       (take 7 (map snd (dailyForecasts e xs)))"

definition transformedData :: "env \<Rightarrow> int \<Rightarrow> weatherData \<Rightarrow> forecastData \<Rightarrow> GetWeatherDataOutput" where
  "transformedData e now wd fd =
     (let timezoneOffset = city_timezone fd
      in \<lparr>o_location = (if wd_name wd \<noteq> [] then wd_name wd else ''Current Location''),
          o_condition = mapWeatherCondition (wd_weather_main wd),
          o_temperature = Math_round (wd_temp wd),
          o_feelsLike = Math_round (wd_feels_like wd),
          o_humidity = Math_round (wd_humidity wd),
          o_windSpeed = Math_round (wd_wind_speed wd * 3.6),
          o_sunrise = formatTimeFromTimestamp e (wd_sunrise wd) timezoneOffset False,
          o_sunset = formatTimeFromTimestamp e (wd_sunset wd) timezoneOffset False,
          o_currentTime = formatTimeFromTimestamp e (wd_dt wd) timezoneOffset False,
          o_forecast = forecast e (items fd),
          o_hourly = hourly e timezoneOffset now (items fd)\<rparr>)"

definition weatherUrl :: "GetWeatherDataInput \<Rightarrow> request option" where
  "weatherUrl input_q =
     (case (if truthy (location input_q) then location input_q else None) of
        Some s \<Rightarrow> Some (CurrentByName s)
      | None \<Rightarrow>
          (case (lat input_q, lon input_q) of
             (Some la, Some lo) \<Rightarrow> Some (CurrentByCoords la lo)
           | _ \<Rightarrow> None))"

text \<open>
  The forecast request: the coordinates of the input where it has them (\<^verbatim>\<open>lat ?? coord.lat\<close>),
  else the ones of the current-weather payload.
\<close>

definition forecastUrl :: "GetWeatherDataInput \<Rightarrow> weatherData \<Rightarrow> request" where
  "forecastUrl input_q wd =
     (let latitude = (case lat input_q of Some v \<Rightarrow> v | None \<Rightarrow> wd_coord_lat wd);
          longitude = (case lon input_q of Some v \<Rightarrow> v | None \<Rightarrow> wd_coord_lon wd)
      in ForecastByCoords latitude longitude)"

text \<open>
  The flow as \<^verbatim>\<open>ai.defineFlow\<close> runs it: the body runs, and the result is checked against
  the output schema. An input with neither a location nor both coordinates reaches the
  body's \<^verbatim>\<open>throw new Error(...)\<close> with the message \<^verbatim>\<open>Either location or both lat and lon must be provided.\<close>,
  the error \<open>MissingLocationError\<close>. The flow returns the result and the requests it
  issued, in order; \<open>now\<close> is the reading of \<^verbatim>\<open>new Date()\<close>.
\<close>

definition getWeatherDataFlow :: "env \<Rightarrow> int \<Rightarrow> GetWeatherDataInput \<Rightarrow> (error + GetWeatherDataOutput) \<times> request list" where
  "getWeatherDataFlow e now input_q =
     (case weatherUrl input_q of
        None \<Rightarrow> (Inl MissingLocationError, [])
      | Some url \<Rightarrow>
          let weatherResponse = fetchWeather e url
          in if \<not> ok weatherResponse
             then (Inl (WeatherRequestFailed (status weatherResponse) (body_text weatherResponse)), [url])
             else
               let wd = json weatherResponse;
                   furl = forecastUrl input_q wd;
                   forecastResponse = fetchForecast e furl
               in if \<not> ok forecastResponse
                  then (Inl (ForecastRequestFailed (status forecastResponse) (body_text forecastResponse)),
                        [url, furl])
                  else
                    let out = transformedData e now wd (json forecastResponse)
                    in if GetWeatherDataOutputSchema out then (Inr out, [url, furl])
                       else (Inl OutputValidationError, [url, furl]))"

subsection \<open>The entry point\<close>

text \<open>
  One call reads the clock up to three times: in \<^verbatim>\<open>getCachedWeather\<close>, in the flow and in
  \<^verbatim>\<open>setCachedWeather\<close>. The call returns its result, the cache afterwards and the requests
  issued.
\<close>

record clock =
  atLookup :: int
  atFlow :: int
  atStore :: int

definition getWeatherData :: "env \<Rightarrow> clock \<Rightarrow> GetWeatherDataInput \<Rightarrow> cache \<Rightarrow> (error + GetWeatherDataOutput) \<times> cache \<times> request list" where
  "getWeatherData e t input_q weatherCache =
     (let cacheKey = getCacheKey e input_q;
          (cached, cache1) =
            (case (if truthy cacheKey then cacheKey else None) of
               Some k \<Rightarrow> getCachedWeather (atLookup t) k weatherCache
             | None \<Rightarrow> (None, weatherCache))
      in case cached of
           Some c \<Rightarrow> (Inr c, cache1, [])
         | None \<Rightarrow>
             (case getWeatherDataFlow e (atFlow t) input_q of
                (Inl err, reqs) \<Rightarrow> (Inl err, cache1, reqs)
              | (Inr r, reqs) \<Rightarrow>
                  (Inr r,
                   (case (if truthy cacheKey then cacheKey else None) of
                      Some k \<Rightarrow> setCachedWeather (atStore t) k r cache1
                    | None \<Rightarrow> cache1),
                   reqs)))"

text \<open>
  A call is served from the cache when the query has a usable key and the entry of that
  key has not expired at the lookup.
\<close>

definition servedFromCache :: "env \<Rightarrow> clock \<Rightarrow> GetWeatherDataInput \<Rightarrow> cache \<Rightarrow> bool" where
  "servedFromCache e t input_q weatherCache =
     (case getCacheKey e input_q of
        None \<Rightarrow> False
      | Some k \<Rightarrow>
          k \<noteq> [] \<and>
          (case weatherCache k of None \<Rightarrow> False | Some ent \<Rightarrow> atLookup t < expiry ent))"

subsection \<open>The aggregation, as the specification words it\<close>

text \<open>
  The day labels in the order in which they are first seen, the samples of one day in
  their order, and the three folds over one day's samples: the rolling maximum from
  \<^verbatim>\<open>-Infinity\<close>, the rolling minimum from \<^verbatim>\<open>Infinity\<close>, and the pairwise average, which
  starts at 0 and replaces the running value by its mean with the next sample.
\<close>

fun firstSeen :: "'a list \<Rightarrow> 'a list" where
  "firstSeen [] = []"
| "firstSeen (x # xs) = x # removeAll x (firstSeen xs)"

definition dayOf :: "env \<Rightarrow> forecastItem \<Rightarrow> string" where
  "dayOf e item = formatEEE e (item_dt item * 1000)"

definition dayLabels :: "env \<Rightarrow> forecastItem list \<Rightarrow> string list" where
  "dayLabels e xs = firstSeen (map (dayOf e) xs)"

definition dayGroup :: "env \<Rightarrow> string \<Rightarrow> forecastItem list \<Rightarrow> forecastItem list" where
  "dayGroup e d xs = filter (\<lambda>item. dayOf e item = d) xs"

definition rollingMax :: "real list \<Rightarrow> number" where
  "rollingMax ts = foldl (\<lambda>high t. Math_max high (Finite t)) NegInfinity ts"

definition rollingMin :: "real list \<Rightarrow> number" where
  "rollingMin ts = foldl (\<lambda>low t. Math_min low (Finite t)) Infinity ts"

definition pairwiseAverage :: "real list \<Rightarrow> real" where
  "pairwiseAverage hs = foldl (\<lambda>running h. (running + h) / 2) 0 hs"

definition daySummary :: "string \<Rightarrow> forecastItem list \<Rightarrow> DailyData" where
  "daySummary d g =
     \<lparr>day = d, condition = mapWeatherCondition (item_weather_main (hd g)),
      tempHigh = rollingMax (map item_temp_max g),
      tempLow = rollingMin (map item_temp_min g),
      humidity = pairwiseAverage (map item_humidity g)\<rparr>"

subsection \<open>Data for the examples\<close>

text \<open>
  A provider that answers every request with one Paris payload, and two providers that
  fail, one at each endpoint. The weekday is the one of UTC (1 January 1970 was a
  Thursday). The five samples lie on a Thursday (three) and a Friday (two).
\<close>

definition utcWeekday :: "int \<Rightarrow> string" where
  "utcWeekday ms =
     [''Thu'', ''Fri'', ''Sat'', ''Sun'', ''Mon'', ''Tue'', ''Wed''] ! nat ((ms div 86400000) mod 7)"

definition parisWeather :: weatherData where
  "parisWeather =
     \<lparr>wd_coord_lat = 48.85, wd_coord_lon = 2.35, wd_name = ''Paris'', wd_weather_main = ''Rain'',
      wd_temp = 18.4, wd_feels_like = 17.9, wd_humidity = 72, wd_wind_speed = 4.1,
      wd_sunrise = 21600, wd_sunset = 64800, wd_dt = 43200\<rparr>"

definition sample :: "int \<Rightarrow> string \<Rightarrow> real \<Rightarrow> real \<Rightarrow> real \<Rightarrow> forecastItem" where
  "sample t m hi lo hum =
     \<lparr>item_dt = t, item_weather_main = m, item_temp = (hi + lo) / 2, item_temp_max = hi,
      item_temp_min = lo, item_humidity = hum, item_wind_speed = 5\<rparr>"

definition parisItems :: "forecastItem list" where
  "parisItems =
     [sample 0 ''Clouds'' 10 2 80, sample 10800 ''Rain'' 15 (-1) 60, sample 21600 ''Clear'' 5 4 70,
      sample 86400 ''Snow'' 3 (-2) 90, sample 97200 ''Tornado'' 7 1 50]"

definition parisForecast :: forecastData where
  "parisForecast = \<lparr>city_timezone = 3600, items = parisItems\<rparr>"

definition okEnv :: env where
  "okEnv =
     \<lparr>fetchWeather = (\<lambda>_. \<lparr>ok = True, status = 200, body_text = [], json = parisWeather\<rparr>),
      fetchForecast = (\<lambda>_. \<lparr>ok = True, status = 200, body_text = [], json = parisForecast\<rparr>),
      unicodeLowerCase = (\<lambda>s. s),
      intlHourMinute = (\<lambda>_. ''12:00 PM''),
      intlHour = (\<lambda>_. ''12 PM''),
      formatEEE = utcWeekday\<rparr>"

definition notFoundEnv :: env where
  "notFoundEnv =
     okEnv\<lparr>fetchWeather :=
       (\<lambda>_. \<lparr>ok = False, status = 404, body_text = ''city not found'', json = parisWeather\<rparr>)\<rparr>"

definition forecastDownEnv :: env where
  "forecastDownEnv =
     okEnv\<lparr>fetchForecast :=
       (\<lambda>_. \<lparr>ok = False, status = 500, body_text = ''internal error'', json = parisForecast\<rparr>)\<rparr>"

definition parisQuery :: GetWeatherDataInput where
  "parisQuery = \<lparr>location = Some (utf16 ''Paris''), lat = None, lon = None\<rparr>"

definition parisSnapshot :: GetWeatherDataOutput where
  "parisSnapshot = transformedData okEnv 0 parisWeather parisForecast"

section \<open>Auxiliary facts\<close>

subsection \<open>Labels in first-seen order\<close>

lemma firstSeen_snoc:
  "firstSeen (xs @ [x]) = (if x \<in> set xs then firstSeen xs else firstSeen xs @ [x])"
  by (induction xs) auto

lemma set_firstSeen: "set (firstSeen xs) = set xs"
  by (induction xs) auto

lemma distinct_firstSeen: "distinct (firstSeen xs)"
  by (induction xs) (auto simp: distinct_removeAll)

subsection \<open>Updating one key of the dictionary\<close>

lemma assign_map:
  "assign k f (map (\<lambda>d. (d, g d)) ds) = map (\<lambda>d. (d, if d = k then f (g d) else g d)) ds"
  by (induction ds) (auto simp: assign_def)

lemma assign_append: "assign k f (xs @ ys) = assign k f xs @ assign k f ys"
  by (simp add: assign_def)

lemma map_of_labels:
  "map_of (map (\<lambda>d. (d, g d)) ds) k = (if k \<in> set ds then Some (g k) else None)"
  by (induction ds) auto

subsection \<open>One more sample in a day\<close>

lemma daySummary_snoc:
  assumes "g \<noteq> []"
  shows "daySummary d (g @ [x]) =
    (daySummary d g)\<lparr>tempHigh := Math_max (tempHigh (daySummary d g)) (Finite (item_temp_max x)),
                     tempLow := Math_min (tempLow (daySummary d g)) (Finite (item_temp_min x)),
                     humidity := (humidity (daySummary d g) + item_humidity x) / 2\<rparr>"
  using assms by (simp add: daySummary_def rollingMax_def rollingMin_def pairwiseAverage_def)

lemma daySummary_single:
  "daySummary d [x] =
    \<lparr>day = d, condition = mapWeatherCondition (item_weather_main x),
     tempHigh = Math_max NegInfinity (Finite (item_temp_max x)),
     tempLow = Math_min Infinity (Finite (item_temp_min x)),
     humidity = (0 + item_humidity x) / 2\<rparr>"
  by (simp add: daySummary_def rollingMax_def rollingMin_def pairwiseAverage_def)

lemma dayGroup_snoc:
  "dayGroup e d (xs @ [x]) = (if dayOf e x = d then dayGroup e d xs @ [x] else dayGroup e d xs)"
  by (simp add: dayGroup_def)

lemma dayGroup_empty_iff: "dayGroup e d xs = [] \<longleftrightarrow> d \<notin> set (map (dayOf e) xs)"
  by (auto simp: dayGroup_def filter_empty_conv)

subsection \<open>The loop computes the summary of every day group\<close>

lemma forEachItem_groups:
  "forEachItem e (map (\<lambda>d. (d, daySummary d (dayGroup e d xs))) (dayLabels e xs)) x =
   map (\<lambda>d. (d, daySummary d (dayGroup e d (xs @ [x])))) (dayLabels e (xs @ [x]))"
proof (cases "dayOf e x \<in> set (map (dayOf e) xs)")
  case True
  then have ne: "dayGroup e (dayOf e x) xs \<noteq> []"
    by (simp add: dayGroup_empty_iff)
  have labels: "dayLabels e (xs @ [x]) = dayLabels e xs"
    using True by (simp add: dayLabels_def firstSeen_snoc)
  have present: "map_of (map (\<lambda>d. (d, daySummary d (dayGroup e d xs))) (dayLabels e xs)) (dayOf e x) =
      Some (daySummary (dayOf e x) (dayGroup e (dayOf e x) xs))"
    using True by (simp add: map_of_labels dayLabels_def set_firstSeen)
  have "forEachItem e (map (\<lambda>d. (d, daySummary d (dayGroup e d xs))) (dayLabels e xs)) x =
      map (\<lambda>d. (d, if d = dayOf e x
                      then daySummary d (dayGroup e d xs @ [x])
                      else daySummary d (dayGroup e d xs))) (dayLabels e xs)"
    using ne
    by (simp add: forEachItem_def Let_def dayOf_def[symmetric] present assign_map
        daySummary_snoc cong: map_cong)
  also have "\<dots> = map (\<lambda>d. (d, daySummary d (dayGroup e d (xs @ [x])))) (dayLabels e xs)"
    by (intro map_cong) (auto simp: dayGroup_snoc)
  finally show ?thesis
    by (simp add: labels)
next
  case False
  then have emp: "dayGroup e (dayOf e x) xs = []"
    by (simp add: dayGroup_empty_iff)
  have labels: "dayLabels e (xs @ [x]) = dayLabels e xs @ [dayOf e x]"
    using False by (simp add: dayLabels_def firstSeen_snoc)
  have absent: "map_of (map (\<lambda>d. (d, daySummary d (dayGroup e d xs))) (dayLabels e xs)) (dayOf e x) = None"
    using False by (simp add: map_of_labels dayLabels_def set_firstSeen)
  have notin: "dayOf e x \<notin> set (dayLabels e xs)"
    using False by (simp add: dayLabels_def set_firstSeen)
  have others: "map (\<lambda>d. (d, daySummary d (dayGroup e d (xs @ [x])))) (dayLabels e xs) =
      map (\<lambda>d. (d, daySummary d (dayGroup e d xs))) (dayLabels e xs)"
    using notin by (intro map_cong) (auto simp: dayGroup_snoc)
  have same: "assign (dayOf e x) f (map (\<lambda>d. (d, daySummary d (dayGroup e d xs))) (dayLabels e xs)) =
      map (\<lambda>d. (d, daySummary d (dayGroup e d xs))) (dayLabels e xs)" for f
    unfolding assign_map using notin by (intro map_cong) auto
  have last: "dayGroup e (dayOf e x) (xs @ [x]) = [x]"
    by (simp add: dayGroup_snoc emp)
  show ?thesis
    by (simp add: forEachItem_def Let_def dayOf_def[symmetric] absent labels assign_append same
        others last daySummary_single)
      (simp add: assign_def)
qed

lemma dailyForecasts_groups:
  "dailyForecasts e xs = map (\<lambda>d. (d, daySummary d (dayGroup e d xs))) (dayLabels e xs)"
proof (induction xs rule: rev_induct)
  case Nil
  show ?case by (simp add: dailyForecasts_def dayLabels_def)
next
  case (snoc x xs)
  then show ?case
    using forEachItem_groups [of e xs x] by (simp add: dailyForecasts_def)
qed

lemma forecast_groups:
  "forecast e xs =
     map (\<lambda>d. \<lparr>day = d,
                condition = mapWeatherCondition (item_weather_main (hd (dayGroup e d xs))),
                tempHigh = Math_round_number (rollingMax (map item_temp_max (dayGroup e d xs))),
                tempLow = Math_round_number (rollingMin (map item_temp_min (dayGroup e d xs))),
                humidity = Math_round (pairwiseAverage (map item_humidity (dayGroup e d xs)))\<rparr>)
       (take 7 (dayLabels e xs))"
  by (simp add: forecast_def dailyForecasts_groups take_map daySummary_def comp_def)

lemma forecast_member:
  assumes "d \<in> set (take 7 (dayLabels e xs))"
  shows "\<exists>s \<in> set (forecast e xs).
           day s = d
         \<and> tempHigh s = Math_round_number (rollingMax (map item_temp_max (dayGroup e d xs)))
         \<and> tempLow s = Math_round_number (rollingMin (map item_temp_min (dayGroup e d xs)))
         \<and> humidity s = Math_round (pairwiseAverage (map item_humidity (dayGroup e d xs)))"
  unfolding forecast_groups using assms by force

lemma rollingMax_Max: "ts \<noteq> [] \<Longrightarrow> rollingMax ts = Finite (Max (set ts))"
proof (induction ts rule: rev_induct)
  case Nil
  then show ?case by simp
next
  case (snoc t ts)
  show ?case
  proof (cases "ts = []")
    case True
    then show ?thesis by (simp add: rollingMax_def)
  next
    case False
    with snoc show ?thesis
      by (simp add: rollingMax_def max.commute)
  qed
qed

lemma rollingMin_Min: "ts \<noteq> [] \<Longrightarrow> rollingMin ts = Finite (Min (set ts))"
proof (induction ts rule: rev_induct)
  case Nil
  then show ?case by simp
next
  case (snoc t ts)
  show ?case
  proof (cases "ts = []")
    case True
    then show ?thesis by (simp add: rollingMin_def)
  next
    case False
    with snoc show ?thesis
      by (simp add: rollingMin_def min.commute)
  qed
qed

lemmas example_defs =
  okEnv_def notFoundEnv_def forecastDownEnv_def parisForecast_def parisItems_def sample_def
  parisWeather_def utcWeekday_def parisQuery_def

subsection \<open>The Paris example, evaluated\<close>

lemma paris_forecast:
  "forecast okEnv parisItems =
     [\<lparr>day = ''Thu'', condition = Condition Cloudy, tempHigh = Finite 15, tempLow = Finite (-1),
       humidity = 60\<rparr>,
      \<lparr>day = ''Fri'', condition = Condition Snowy, tempHigh = Finite 7, tempLow = Finite (-2),
       humidity = 48\<rparr>]"
  by (simp add: forecast_def dailyForecasts_def forEachItem_def assign_def example_defs
      mapWeatherCondition_def mapping_def objectPrototypeKeys_def Math_round_def Let_def)

lemma paris_hourly:
  "hourly okEnv 3600 0 parisItems =
     [\<lparr>h_time = ''12 PM'', h_condition = Condition Cloudy, h_temperature = 6, h_windSpeed = 18,
       h_humidity = 80\<rparr>,
      \<lparr>h_time = ''12 PM'', h_condition = Condition Rainy, h_temperature = 7, h_windSpeed = 18,
       h_humidity = 60\<rparr>,
      \<lparr>h_time = ''12 PM'', h_condition = Condition Sunny, h_temperature = 5, h_windSpeed = 18,
       h_humidity = 70\<rparr>,
      \<lparr>h_time = ''12 PM'', h_condition = Condition Snowy, h_temperature = 1, h_windSpeed = 18,
       h_humidity = 90\<rparr>]"
  by (simp add: hourly_def toHourly_def formatTimeFromTimestamp_def example_defs
      mapWeatherCondition_def mapping_def objectPrototypeKeys_def Math_round_def Let_def)

lemma paris_snapshot:
  "parisSnapshot =
     \<lparr>o_location = ''Paris'', o_condition = Condition Rainy, o_temperature = 18, o_feelsLike = 18,
      o_humidity = 72, o_windSpeed = 15, o_sunrise = ''12:00 PM'', o_sunset = ''12:00 PM'',
      o_currentTime = ''12:00 PM'', o_forecast = forecast okEnv parisItems,
      o_hourly = hourly okEnv 3600 0 parisItems\<rparr>"
  by (simp add: parisSnapshot_def transformedData_def formatTimeFromTimestamp_def
      mapWeatherCondition_def mapping_def objectPrototypeKeys_def Math_round_def Let_def
      okEnv_def parisWeather_def parisForecast_def)

lemma paris_snapshot_valid: "GetWeatherDataOutputSchema parisSnapshot"
  by (simp add: GetWeatherDataOutputSchema_def paris_snapshot paris_forecast paris_hourly)

lemma paris_flow:
  "getWeatherDataFlow okEnv now parisQuery =
     (if GetWeatherDataOutputSchema (transformedData okEnv now parisWeather parisForecast)
      then Inr (transformedData okEnv now parisWeather parisForecast)
      else Inl OutputValidationError,
      [CurrentByName (utf16 ''Paris''), ForecastByCoords 48.85 2.35])"
  by (simp add: getWeatherDataFlow_def weatherUrl_def Let_def
      forecastUrl_def okEnv_def parisQuery_def parisWeather_def utf16_def)

lemma paris_flow_0:
  "getWeatherDataFlow okEnv 0 parisQuery =
     (Inr parisSnapshot, [CurrentByName (utf16 ''Paris''), ForecastByCoords 48.85 2.35])"
  using paris_snapshot_valid by (simp add: paris_flow parisSnapshot_def)

subsection \<open>What a successful run of the flow returns\<close>

lemma flow_success:
  assumes "getWeatherDataFlow e now q = (Inr out, reqs)"
  shows "\<exists>url. weatherUrl q = Some url \<and> ok (fetchWeather e url)
           \<and> ok (fetchForecast e (forecastUrl q (json (fetchWeather e url))))
           \<and> reqs = [url, forecastUrl q (json (fetchWeather e url))]
           \<and> out = transformedData e now (json (fetchWeather e url))
                     (json (fetchForecast e (forecastUrl q (json (fetchWeather e url)))))
           \<and> GetWeatherDataOutputSchema out"
proof (cases "weatherUrl q")
  case None
  with assms show ?thesis
    by (simp add: getWeatherDataFlow_def split: if_splits)
next
  case (Some url)
  with assms show ?thesis
    by (simp add: getWeatherDataFlow_def Let_def split: if_splits)
qed

lemma flow_success_parts:
  assumes "getWeatherDataFlow e now q = (Inr out, reqs)"
  shows "\<exists>fd :: forecastData. o_hourly out = hourly e (city_timezone fd) now (items fd)
             \<and> o_forecast out = forecast e (items fd)"
proof -
  from flow_success [OF assms] obtain url where
    out: "out = transformedData e now (json (fetchWeather e url))
                  (json (fetchForecast e (forecastUrl q (json (fetchWeather e url)))))"
    by blast
  show ?thesis
    unfolding out
    by (intro exI [of _ "json (fetchForecast e (forecastUrl q (json (fetchWeather e url))))"])
      (simp add: transformedData_def Let_def)
qed

lemma length_hourly: "length (hourly e tz now xs) \<le> 8"
  by (simp add: hourly_def Let_def)

section \<open>The daily aggregation\<close>

text \<open>
  C3. The daily humidity of every day group in the output is the pairwise-averaging
  fold over that day's samples in their order, rounded: the fold starts at 0, each
  sample replaces the running value by (running + sample humidity) / 2. The fold depends
  on the order and is not the mean: 80 then 60 gives 50, 60 then 80 gives 55, and the
  mean of both is 70.
\<close>

theorem daily_humidity_pairwise_average:
  "map humidity (forecast e xs) =
     map (\<lambda>d. Math_round (pairwiseAverage (map item_humidity (dayGroup e d xs))))
       (take 7 (dayLabels e xs))
   \<and> pairwiseAverage [] = 0
   \<and> pairwiseAverage (hs @ [h]) = (pairwiseAverage hs + h) / 2
   \<and> pairwiseAverage [80, 60] = 50 \<and> pairwiseAverage [60, 80] = 55"
  by (simp add: forecast_groups comp_def pairwiseAverage_def)

text \<open>
  C5. The output has one entry for each of the first seven day labels, in first-seen
  order; its high is the rounded rolling maximum (from \<^verbatim>\<open>-Infinity\<close>) of the day's
  maximum temperatures and its low the rounded rolling minimum (from \<^verbatim>\<open>Infinity\<close>) of the
  day's minimum temperatures. A day with maxima 10, 15, 5 and minima 2, -1, 4 has the
  high 15 and the low -1.
\<close>

theorem daily_high_low_first_seven_days:
  "map day (forecast e xs) = take 7 (dayLabels e xs)
   \<and> map tempHigh (forecast e xs) =
       map (\<lambda>d. Math_round_number (rollingMax (map item_temp_max (dayGroup e d xs))))
         (take 7 (dayLabels e xs))
   \<and> map tempLow (forecast e xs) =
       map (\<lambda>d. Math_round_number (rollingMin (map item_temp_min (dayGroup e d xs))))
         (take 7 (dayLabels e xs))
   \<and> (d \<in> set (take 7 (dayLabels e xs))
        \<and> map item_temp_max (dayGroup e d xs) = [10, 15, 5]
        \<and> map item_temp_min (dayGroup e d xs) = [2, -1, 4]
      \<longrightarrow> (\<exists>s \<in> set (forecast e xs). day s = d \<and> tempHigh s = Finite 15 \<and> tempLow s = Finite (-1)))"
proof -
  have "\<exists>s \<in> set (forecast e xs). day s = d \<and> tempHigh s = Finite 15 \<and> tempLow s = Finite (-1)"
    if "d \<in> set (take 7 (dayLabels e xs))"
      and "map item_temp_max (dayGroup e d xs) = [10, 15, 5]"
      and "map item_temp_min (dayGroup e d xs) = [2, -1, 4]"
    using forecast_member [OF that(1)] that(2,3)
    by (auto simp: rollingMax_def rollingMin_def Math_round_def)
  then show ?thesis
    by (simp add: forecast_groups comp_def)
qed

theorem daily_high_low_first_seven_days_witness:
  "''Thu'' \<in> set (take 7 (dayLabels okEnv parisItems))
   \<and> map item_temp_max (dayGroup okEnv ''Thu'' parisItems) = [10, 15, 5]
   \<and> map item_temp_min (dayGroup okEnv ''Thu'' parisItems) = [2, -1, 4]
   \<and> map day (forecast okEnv parisItems) = [''Thu'', ''Fri'']
   \<and> (\<exists>s \<in> set (forecast okEnv parisItems).
         day s = ''Thu'' \<and> tempHigh s = Finite 15 \<and> tempLow s = Finite (-1))"
proof -
  have labels: "dayLabels okEnv parisItems = [''Thu'', ''Fri'']"
    by (simp add: dayLabels_def dayOf_def example_defs)
  have hi: "map item_temp_max (dayGroup okEnv ''Thu'' parisItems) = [10, 15, 5]"
    by (simp add: dayGroup_def dayOf_def example_defs)
  have lo: "map item_temp_min (dayGroup okEnv ''Thu'' parisItems) = [2, -1, 4]"
    by (simp add: dayGroup_def dayOf_def example_defs)
  show ?thesis
    using daily_high_low_first_seven_days [of okEnv parisItems "''Thu''"] hi lo
    by (simp add: labels)
qed

text \<open>
  C9. The running humidity of a new day is 0 and the first sample is averaged with it:
  a day group with the single sample of humidity \<open>h\<close> has the output humidity
  \<open>round (h / 2)\<close>.
\<close>

theorem single_sample_day_humidity:
  "forEachItem e [] x =
     [(dayOf e x,
       \<lparr>day = dayOf e x, condition = mapWeatherCondition (item_weather_main x),
        tempHigh = Finite (item_temp_max x), tempLow = Finite (item_temp_min x),
        humidity = (0 + item_humidity x) / 2\<rparr>)]
   \<and> (d \<in> set (take 7 (dayLabels e xs)) \<and> dayGroup e d xs = [x]
      \<longrightarrow> (\<exists>s \<in> set (forecast e xs). day s = d \<and> humidity s = Math_round (item_humidity x / 2)))"
proof -
  have "\<exists>s \<in> set (forecast e xs). day s = d \<and> humidity s = Math_round (item_humidity x / 2)"
    if "d \<in> set (take 7 (dayLabels e xs))" and "dayGroup e d xs = [x]"
    using forecast_member [OF that(1)] that(2)
    by (auto simp: pairwiseAverage_def)
  then show ?thesis
    by (simp add: forEachItem_def assign_def dayOf_def Let_def)
qed

theorem single_sample_day_humidity_witness:
  "''Fri'' \<in> set (take 7 (dayLabels okEnv (take 4 parisItems)))
   \<and> dayGroup okEnv ''Fri'' (take 4 parisItems) = [sample 86400 ''Snow'' 3 (-2) 90]
   \<and> (\<exists>s \<in> set (forecast okEnv (take 4 parisItems)). day s = ''Fri'' \<and> humidity s = 45)"
proof -
  have labels: "dayLabels okEnv (take 4 parisItems) = [''Thu'', ''Fri'']"
    by (simp add: dayLabels_def dayOf_def example_defs)
  have grp: "dayGroup okEnv ''Fri'' (take 4 parisItems) = [sample 86400 ''Snow'' 3 (-2) 90]"
    by (simp add: dayGroup_def dayOf_def example_defs)
  have r: "Math_round (item_humidity (sample 86400 ''Snow'' 3 (-2) 90) / 2) = 45"
    by (simp add: sample_def Math_round_def)
  show ?thesis
    using single_sample_day_humidity
      [of okEnv "sample 86400 ''Snow'' 3 (-2) 90" "''Fri''" "take 4 parisItems"] grp
    by (simp add: labels r)
qed

section \<open>The hourly part\<close>

text \<open>
  C4. The hourly output is the image of at most the first eight of the samples whose
  timestamp is at most 24 hours after the call time: it has at most eight entries, and
  every sample it is made from is one of the list and lies within those 24 hours. The
  same holds for the hourly part of every snapshot the flow returns.
\<close>

theorem hourly_at_most_eight_within_a_day:
  "length (hourly e tz now xs) \<le> 8
   \<and> hourly e tz now xs =
       map (toHourly e tz) (take 8 (filter (\<lambda>h. item_dt h * 1000 \<le> now + 24 * 60 * 60 * 1000) xs))
   \<and> (\<forall>h \<in> set (take 8 (filter (\<lambda>h. item_dt h * 1000 \<le> now + 24 * 60 * 60 * 1000) xs)).
         h \<in> set xs \<and> item_dt h * 1000 \<le> now + 24 * 60 * 60 * 1000)
   \<and> (getWeatherDataFlow e now q = (Inr out, reqs) \<longrightarrow> length (o_hourly out) \<le> 8)"
proof -
  have "h \<in> set xs \<and> item_dt h * 1000 \<le> now + 24 * 60 * 60 * 1000"
    if "h \<in> set (take 8 (filter (\<lambda>h. item_dt h * 1000 \<le> now + 24 * 60 * 60 * 1000) xs))" for h
    using in_set_takeD [OF that] by simp
  moreover have "length (o_hourly out) \<le> 8" if "getWeatherDataFlow e now q = (Inr out, reqs)"
    using flow_success_parts [OF that] by (metis length_hourly)
  moreover have "hourly e tz now xs =
      map (toHourly e tz) (take 8 (filter (\<lambda>h. item_dt h * 1000 \<le> now + 24 * 60 * 60 * 1000) xs))"
    by (simp add: hourly_def)
  ultimately show ?thesis
    using length_hourly [of e tz now xs] by blast
qed

theorem hourly_at_most_eight_within_a_day_witness:
  "length (hourly okEnv 3600 0 (parisItems @ parisItems)) = 8
   \<and> list_all (\<lambda>h. h \<in> set (parisItems @ parisItems) \<and> item_dt h * 1000 \<le> 0 + 24 * 60 * 60 * 1000)
       (take 8 (filter (\<lambda>h. item_dt h * 1000 \<le> 0 + 24 * 60 * 60 * 1000) (parisItems @ parisItems)))
   \<and> getWeatherDataFlow okEnv 0 parisQuery =
       (Inr parisSnapshot, [CurrentByName (utf16 ''Paris''), ForecastByCoords 48.85 2.35])
   \<and> length (o_hourly parisSnapshot) \<le> 8"
proof -
  note inst = hourly_at_most_eight_within_a_day
      [of okEnv 3600 0 "parisItems @ parisItems" parisQuery parisSnapshot
        "[CurrentByName (utf16 ''Paris''), ForecastByCoords 48.85 2.35]"]
  have within: "list_all (\<lambda>h. h \<in> set (parisItems @ parisItems) \<and> item_dt h * 1000 \<le> 0 + 24 * 60 * 60 * 1000)
       (take 8 (filter (\<lambda>h. item_dt h * 1000 \<le> 0 + 24 * 60 * 60 * 1000) (parisItems @ parisItems)))"
    unfolding list_all_iff using inst by blast
  have snap: "length (o_hourly parisSnapshot) \<le> 8"
    using inst paris_flow_0 by blast
  have eight: "length (hourly okEnv 3600 0 (parisItems @ parisItems)) = 8"
    by (simp add: hourly_def parisItems_def sample_def)
  show ?thesis
    using within snap eight paris_flow_0 by blast
qed

section \<open>The cache and the entry point\<close>

subsection \<open>The three ways through \<^verbatim>\<open>getWeatherData\<close>\<close>

lemma getWeatherData_no_key:
  assumes "\<not> truthy (getCacheKey e q)"
  shows "getWeatherData e t q c =
           (fst (getWeatherDataFlow e (atFlow t) q), c, snd (getWeatherDataFlow e (atFlow t) q))"
  using assms
  by (cases "getWeatherDataFlow e (atFlow t) q"; cases "fst (getWeatherDataFlow e (atFlow t) q)")
     (auto simp: getWeatherData_def Let_def split: sum.splits)

lemma getWeatherData_hit:
  assumes "getCacheKey e q = Some k" "k \<noteq> []" "c k = Some ent" "atLookup t < expiry ent"
  shows "getWeatherData e t q c = (Inr (data ent), c, [])"
  using assms by (simp add: getWeatherData_def getCachedWeather_def)

lemma getWeatherData_miss:
  assumes "getCacheKey e q = Some k" "k \<noteq> []"
    and "c k = None \<or> (\<exists>ent. c k = Some ent \<and> expiry ent \<le> atLookup t)"
  shows "getWeatherData e t q c =
           (case getWeatherDataFlow e (atFlow t) q of
              (Inl err, reqs) \<Rightarrow> (Inl err, c(k := None), reqs)
            | (Inr r, reqs) \<Rightarrow> (Inr r, setCachedWeather (atStore t) k r (c(k := None)), reqs))"
  using assms
  by (auto simp: getWeatherData_def getCachedWeather_def setCachedWeather_def Let_def fun_upd_idem
      split: sum.splits prod.splits option.splits)

subsection \<open>The test of the input and the first request\<close>

lemma weatherUrl_schema: "weatherUrl q \<noteq> None \<longleftrightarrow> GetWeatherDataInputSchema q"
  by (cases "location q"; cases "lat q"; cases "lon q")
    (simp_all add: weatherUrl_def GetWeatherDataInputSchema_def)

lemma getCacheKey_schema: "getCacheKey e q \<noteq> None \<longleftrightarrow> GetWeatherDataInputSchema q"
  by (cases "location q"; cases "lat q"; cases "lon q")
    (simp_all add: getCacheKey_def GetWeatherDataInputSchema_def)

lemma flow_invalid:
  "\<not> GetWeatherDataInputSchema q \<Longrightarrow> getWeatherDataFlow e now q = (Inl MissingLocationError, [])"
  using weatherUrl_schema [of q] by (simp add: getWeatherDataFlow_def)

lemma flow_weather_failed:
  assumes "weatherUrl q = Some url" "\<not> ok (fetchWeather e url)"
  shows "getWeatherDataFlow e now q =
           (Inl (WeatherRequestFailed (status (fetchWeather e url)) (body_text (fetchWeather e url))), [url])"
  using assms by (simp add: getWeatherDataFlow_def Let_def)

lemma flow_forecast_failed:
  assumes "weatherUrl q = Some url" "ok (fetchWeather e url)"
    and "\<not> ok (fetchForecast e (forecastUrl q (json (fetchWeather e url))))"
  shows "getWeatherDataFlow e now q =
           (Inl (ForecastRequestFailed
                  (status (fetchForecast e (forecastUrl q (json (fetchWeather e url)))))
                  (body_text (fetchForecast e (forecastUrl q (json (fetchWeather e url)))))),
            [url, forecastUrl q (json (fetchWeather e url))])"
  using assms by (simp add: getWeatherDataFlow_def Let_def)

lemma flow_requests:
  assumes "weatherUrl q = Some url"
  shows "\<exists>rest. snd (getWeatherDataFlow e now q) = url # rest"
  using assms by (simp add: getWeatherDataFlow_def Let_def)

lemma flow_both_requests:
  assumes "weatherUrl q = Some url" "ok (fetchWeather e url)"
  shows "snd (getWeatherDataFlow e now q) = [url, forecastUrl q (json (fetchWeather e url))]"
  using assms by (simp add: getWeatherDataFlow_def Let_def)

lemma flow_not_invalid:
  assumes "weatherUrl q = Some url"
  shows "fst (getWeatherDataFlow e now q) \<noteq> Inl MissingLocationError"
  using assms by (simp add: getWeatherDataFlow_def Let_def)

lemma okEnv_flow:
  assumes "weatherUrl q = Some url"
  shows "getWeatherDataFlow okEnv 0 q = (Inr parisSnapshot, [url, forecastUrl q parisWeather])"
  using assms paris_snapshot_valid
  by (simp add: getWeatherDataFlow_def Let_def okEnv_def parisSnapshot_def)

lemma paris_key: "getCacheKey e parisQuery = Some (utf16 ''paris'')"
  by (simp add: getCacheKey_def parisQuery_def trim_def isWhiteSpace_def toLowerCase_def
      toLowerASCII_def utf16_def)

lemma paris_key_not_empty: "utf16 ''paris'' \<noteq> []"
  by (simp add: utf16_def)

subsection \<open>Trimming\<close>

lemma trim_whitespace:
  assumes "\<forall>ch \<in> set s. isWhiteSpace ch"
  shows "trim s = []"
proof -
  have all: "dropWhile isWhiteSpace s = []"
    using assms by simp
  show ?thesis
    unfolding trim_def all by simp
qed

text \<open>
  C2. After \<^verbatim>\<open>put(key, value)\<close> at time \<open>t\<close> the entry of the key is the value with the
  expiry \<open>t\<close> plus 5 minutes, whatever the cache held for the key before, and no other
  key changes. A \<^verbatim>\<open>get\<close> strictly before the expiry returns exactly the stored snapshot and
  leaves the cache as it is; a \<^verbatim>\<open>get\<close> at or after the expiry removes the entry and reports
  absent, and a request for that key then runs the flow: its result and its requests are
  the flow's.
\<close>

theorem cache_put_then_get:
  "setCachedWeather t k v c k = Some \<lparr>data = v, expiry = t + 5 * 60 * 1000\<rparr>
   \<and> (\<forall>k'. k' \<noteq> k \<longrightarrow> setCachedWeather t k v c k' = c k')
   \<and> (now < t + 5 * 60 * 1000 \<longrightarrow>
        getCachedWeather now k (setCachedWeather t k v c) = (Some v, setCachedWeather t k v c))
   \<and> (t + 5 * 60 * 1000 \<le> now \<longrightarrow>
        getCachedWeather now k (setCachedWeather t k v c) = (None, (setCachedWeather t k v c)(k := None)))
   \<and> (t + 5 * 60 * 1000 \<le> atLookup clk \<and> getCacheKey e q = Some k \<and> k \<noteq> [] \<longrightarrow>
        fst (getWeatherData e clk q (setCachedWeather t k v c)) = fst (getWeatherDataFlow e (atFlow clk) q)
      \<and> snd (snd (getWeatherData e clk q (setCachedWeather t k v c))) =
          snd (getWeatherDataFlow e (atFlow clk) q))"
proof -
  have stored: "setCachedWeather t k v c k = Some \<lparr>data = v, expiry = t + 5 * 60 * 1000\<rparr>"
    by (simp add: setCachedWeather_def CACHE_TTL_MS_def)
  have frame: "\<forall>k'. k' \<noteq> k \<longrightarrow> setCachedWeather t k v c k' = c k'"
    by (simp add: setCachedWeather_def)
  have fresh: "getCachedWeather now k (setCachedWeather t k v c) = (Some v, setCachedWeather t k v c)"
    if "now < t + 5 * 60 * 1000"
    using that by (simp add: getCachedWeather_def stored)
  have stale: "getCachedWeather now k (setCachedWeather t k v c) =
      (None, (setCachedWeather t k v c)(k := None))"
    if "t + 5 * 60 * 1000 \<le> now"
    using that by (simp add: getCachedWeather_def stored)
  have again: "fst (getWeatherData e clk q (setCachedWeather t k v c)) = fst (getWeatherDataFlow e (atFlow clk) q)
      \<and> snd (snd (getWeatherData e clk q (setCachedWeather t k v c))) =
          snd (getWeatherDataFlow e (atFlow clk) q)"
    if "t + 5 * 60 * 1000 \<le> atLookup clk" "getCacheKey e q = Some k" "k \<noteq> []"
  proof -
    have "\<exists>ent. setCachedWeather t k v c k = Some ent \<and> expiry ent \<le> atLookup clk"
      using that(1) by (simp add: stored)
    then show ?thesis
      using getWeatherData_miss [of e q k "setCachedWeather t k v c" clk] that(2,3)
      by (cases "getWeatherDataFlow e (atFlow clk) q"; cases "fst (getWeatherDataFlow e (atFlow clk) q)")
        auto
  qed
  from stored frame fresh stale again show ?thesis
    by blast
qed

theorem cache_put_then_get_witness:
  "(1000 :: int) < 0 + 5 * 60 * 1000
   \<and> getCachedWeather 1000 (utf16 ''paris'') (setCachedWeather 0 (utf16 ''paris'') parisSnapshot Map.empty) =
       (Some parisSnapshot, setCachedWeather 0 (utf16 ''paris'') parisSnapshot Map.empty)
   \<and> (0 :: int) + 5 * 60 * 1000 \<le> 300000
   \<and> getCachedWeather 300000 (utf16 ''paris'') (setCachedWeather 0 (utf16 ''paris'') parisSnapshot Map.empty) =
       (None, (setCachedWeather 0 (utf16 ''paris'') parisSnapshot Map.empty)(utf16 ''paris'' := None))
   \<and> getCacheKey okEnv parisQuery = Some (utf16 ''paris'')
   \<and> snd (snd (getWeatherData okEnv \<lparr>atLookup = 300000, atFlow = 0, atStore = 300002\<rparr> parisQuery
          (setCachedWeather 0 (utf16 ''paris'') parisSnapshot Map.empty))) =
       [CurrentByName (utf16 ''Paris''), ForecastByCoords 48.85 2.35]"
proof -
  note inst1 = cache_put_then_get
    [where t = 0 and k = "utf16 ''paris''" and v = parisSnapshot and c = Map.empty and now = 1000]
  note inst2 = cache_put_then_get
    [where t = 0 and k = "utf16 ''paris''" and v = parisSnapshot and c = Map.empty and now = 300000
       and clk = "\<lparr>atLookup = 300000, atFlow = 0, atStore = 300002\<rparr>" and q = parisQuery
       and e = okEnv]
  have a: "getCachedWeather 1000 (utf16 ''paris'') (setCachedWeather 0 (utf16 ''paris'') parisSnapshot Map.empty) =
       (Some parisSnapshot, setCachedWeather 0 (utf16 ''paris'') parisSnapshot Map.empty)"
    using inst1 by simp
  have b: "getCachedWeather 300000 (utf16 ''paris'') (setCachedWeather 0 (utf16 ''paris'') parisSnapshot Map.empty) =
       (None, (setCachedWeather 0 (utf16 ''paris'') parisSnapshot Map.empty)(utf16 ''paris'' := None))"
    using inst2 by simp
  have c: "snd (snd (getWeatherData okEnv \<lparr>atLookup = 300000, atFlow = 0, atStore = 300002\<rparr> parisQuery
          (setCachedWeather 0 (utf16 ''paris'') parisSnapshot Map.empty))) =
       [CurrentByName (utf16 ''Paris''), ForecastByCoords 48.85 2.35]"
    using inst2 paris_key paris_key_not_empty by (simp add: paris_flow_0)
  from a b c paris_key show ?thesis
    by simp
qed

text \<open>
  C10. A location that is not empty and consists of white space only has the empty
  string as its key, which counts as no key: the call returns what the flow returns,
  issues the flow's requests, the first of them the current-weather request for that
  location, and leaves the cache as it was. This holds for every cache, so also for the
  cache left by an identical call that succeeded a moment earlier.
\<close>

theorem whitespace_location_bypasses_cache:
  "location q = Some s \<and> s \<noteq> [] \<and> (\<forall>ch \<in> set s. isWhiteSpace ch) \<longrightarrow>
     getCacheKey e q = Some []
     \<and> getWeatherData e clk q c =
         (fst (getWeatherDataFlow e (atFlow clk) q), c, snd (getWeatherDataFlow e (atFlow clk) q))
     \<and> (\<exists>rest. snd (getWeatherDataFlow e (atFlow clk) q) = CurrentByName s # rest)
     \<and> getWeatherData e' clk' q (fst (snd (getWeatherData e clk q c))) =
         (fst (getWeatherDataFlow e' (atFlow clk') q), c, snd (getWeatherDataFlow e' (atFlow clk') q))"
proof (intro impI, elim conjE)
  assume s: "location q = Some s" "s \<noteq> []" and ws: "\<forall>ch \<in> set s. isWhiteSpace ch"
  have key: "getCacheKey e q = Some []" for e
    using s trim_whitespace [OF ws] by (simp add: getCacheKey_def toLowerCase_def)
  then have nokey: "\<not> truthy (getCacheKey e q)" for e
    by simp
  have url: "weatherUrl q = Some (CurrentByName s)"
    using s by (simp add: weatherUrl_def)
  have one: "getWeatherData e clk q c =
      (fst (getWeatherDataFlow e (atFlow clk) q), c, snd (getWeatherDataFlow e (atFlow clk) q))"
    for e clk c
    by (rule getWeatherData_no_key [OF nokey])
  show "getCacheKey e q = Some []
     \<and> getWeatherData e clk q c =
         (fst (getWeatherDataFlow e (atFlow clk) q), c, snd (getWeatherDataFlow e (atFlow clk) q))
     \<and> (\<exists>rest. snd (getWeatherDataFlow e (atFlow clk) q) = CurrentByName s # rest)
     \<and> getWeatherData e' clk' q (fst (snd (getWeatherData e clk q c))) =
         (fst (getWeatherDataFlow e' (atFlow clk') q), c, snd (getWeatherDataFlow e' (atFlow clk') q))"
    using key [of e] flow_requests [OF url, of e "atFlow clk"] by (simp add: one)
qed

text \<open>
  The witness has a no-break space, an em space and a blank as its location, and a cache
  that the first of its two calls leaves behind.
\<close>

theorem whitespace_location_bypasses_cache_witness:
  "getCacheKey okEnv \<lparr>location = Some [0x00A0, 0x2003, 0x0020], lat = None, lon = None\<rparr> = Some []
   \<and> getWeatherData okEnv \<lparr>atLookup = 5, atFlow = 0, atStore = 7\<rparr>
        \<lparr>location = Some [0x00A0, 0x2003, 0x0020], lat = None, lon = None\<rparr>
        (fst (snd (getWeatherData okEnv \<lparr>atLookup = 1, atFlow = 0, atStore = 3\<rparr>
           \<lparr>location = Some [0x00A0, 0x2003, 0x0020], lat = None, lon = None\<rparr> Map.empty))) =
       (Inr parisSnapshot, Map.empty,
        [CurrentByName [0x00A0, 0x2003, 0x0020], ForecastByCoords 48.85 2.35])"
proof -
  let ?s = "[0x00A0, 0x2003, 0x0020] :: jsstring"
  let ?q = "\<lparr>location = Some ?s, lat = None, lon = None\<rparr>"
  have prem: "location ?q = Some ?s \<and> ?s \<noteq> [] \<and> (\<forall>ch \<in> set ?s. isWhiteSpace ch)"
    by (simp add: isWhiteSpace_def)
  have flow: "getWeatherDataFlow okEnv 0 ?q =
      (Inr parisSnapshot, [CurrentByName ?s, ForecastByCoords 48.85 2.35])"
    using okEnv_flow [of ?q "CurrentByName ?s"]
    by (simp add: weatherUrl_def forecastUrl_def parisWeather_def)
  note concl = whitespace_location_bypasses_cache
      [where q = ?q and s = ?s and e = okEnv and e' = okEnv and c = Map.empty
         and clk = "\<lparr>atLookup = 1, atFlow = 0, atStore = 3\<rparr>"
         and clk' = "\<lparr>atLookup = 5, atFlow = 0, atStore = 7\<rparr>", THEN mp, OF prem]
  from concl have key: "getCacheKey okEnv ?q = Some []"
    by (rule conjunct1)
  from concl have again:
    "getWeatherData okEnv \<lparr>atLookup = 5, atFlow = 0, atStore = 7\<rparr> ?q
        (fst (snd (getWeatherData okEnv \<lparr>atLookup = 1, atFlow = 0, atStore = 3\<rparr> ?q Map.empty))) =
     (fst (getWeatherDataFlow okEnv (atFlow \<lparr>atLookup = 5, atFlow = 0, atStore = 7\<rparr>) ?q), Map.empty,
      snd (getWeatherDataFlow okEnv (atFlow \<lparr>atLookup = 5, atFlow = 0, atStore = 7\<rparr>) ?q))"
    by blast
  have "getWeatherData okEnv \<lparr>atLookup = 5, atFlow = 0, atStore = 7\<rparr> ?q
        (fst (snd (getWeatherData okEnv \<lparr>atLookup = 1, atFlow = 0, atStore = 3\<rparr> ?q Map.empty))) =
     (Inr parisSnapshot, Map.empty, [CurrentByName ?s, ForecastByCoords 48.85 2.35])"
    unfolding again by (simp add: flow)
  with key show ?thesis
    by (rule conjI)
qed

section \<open>The cache key\<close>

lemma london_key:
  "getCacheKey e \<lparr>location = Some (utf16 ''  London  ''), lat = None, lon = None\<rparr> =
     Some (utf16 ''london'')"
  by (simp add: getCacheKey_def trim_def isWhiteSpace_def toLowerCase_def toLowerASCII_def utf16_def)

lemma nbsp_london_key:
  "getCacheKey e \<lparr>location = Some (0x00A0 # utf16 ''London'' @ [0x3000, 0xFEFF]), lat = None, lon = None\<rparr> =
     Some (utf16 ''london'')"
  by (simp add: getCacheKey_def trim_def isWhiteSpace_def toLowerCase_def toLowerASCII_def utf16_def)

lemma toFixed2_examples:
  "toFixed2 51.507 = ''51.51''" "toFixed2 51.5074 = ''51.51''"
  "toFixed2 (-0.1278) = ''-0.13''" "toFixed2 (-0.12781) = ''-0.13''"
  "toFixed2 1 = ''1.00''" "toFixed2 2 = ''2.00''"
  by (simp_all add: toFixed2_def digits.simps)

text \<open>
  C6, as the code has it. The key of a query with a location that is not empty is the
  location trimmed and in lower case (\<open>london\<close> for \<open>London\<close> between blanks, and also
  between a no-break space and an ideographic space). The key of a query with no such
  location and with both coordinates is \<^verbatim>\<open>toFixed(2)\<close> of the latitude, a colon,
  \<^verbatim>\<open>toFixed(2)\<close> of the longitude, so (51.507, -0.1278) and (51.5074, -0.12781) have the
  same key. Two queries with the same non-empty key hit each other's entry: when a call
  for the first fetched and succeeded, a call for the second whose lookup is before the
  stored entry's expiry returns the same snapshot and issues no request.
\<close>

theorem cache_key_derivation:
  "(location q = Some s \<and> s \<noteq> [] \<longrightarrow>
      getCacheKey e q = Some (toLowerCase (unicodeLowerCase e) (trim s)))
   \<and> (\<not> truthy (location q) \<and> lat q = Some la \<and> lon q = Some lo \<longrightarrow>
        getCacheKey e q = Some (utf16 (toFixed2 la @ '':'' @ toFixed2 lo)))
   \<and> getCacheKey e \<lparr>location = Some (utf16 ''  London  ''), lat = None, lon = None\<rparr> =
       Some (utf16 ''london'')
   \<and> getCacheKey e \<lparr>location = Some (0x00A0 # utf16 ''London'' @ [0x3000, 0xFEFF]), lat = None, lon = None\<rparr> =
       Some (utf16 ''london'')
   \<and> getCacheKey e \<lparr>location = None, lat = Some 51.507, lon = Some (-0.1278)\<rparr> =
       Some (utf16 ''51.51:-0.13'')
   \<and> getCacheKey e \<lparr>location = None, lat = Some 51.5074, lon = Some (-0.12781)\<rparr> =
       Some (utf16 ''51.51:-0.13'')
   \<and> (getCacheKey ea qa = Some k \<and> getCacheKey eb qb = Some k \<and> k \<noteq> []
        \<and> getWeatherData ea ta qa c = (Inr r, ca, reqs) \<and> reqs \<noteq> []
        \<and> atLookup tb < atStore ta + CACHE_TTL_MS \<longrightarrow>
        getWeatherData eb tb qb ca = (Inr r, ca, []))"
proof -
  have byName: "getCacheKey e q = Some (toLowerCase (unicodeLowerCase e) (trim s))"
    if "location q = Some s" "s \<noteq> []"
    using that by (simp add: getCacheKey_def)
  have byCoords: "getCacheKey e q = Some (utf16 (toFixed2 la @ '':'' @ toFixed2 lo))"
    if "\<not> truthy (location q)" "lat q = Some la" "lon q = Some lo"
    using that by (simp add: getCacheKey_def)
  have a: "getCacheKey e \<lparr>location = None, lat = Some 51.507, lon = Some (-0.1278)\<rparr> =
      Some (utf16 ''51.51:-0.13'')"
    by (simp add: getCacheKey_def toFixed2_def digits.simps)
  have b: "getCacheKey e \<lparr>location = None, lat = Some 51.5074, lon = Some (-0.12781)\<rparr> =
      Some (utf16 ''51.51:-0.13'')"
    by (simp add: getCacheKey_def toFixed2_def digits.simps)
  have hit: "getWeatherData eb tb qb ca = (Inr r, ca, [])"
    if k: "getCacheKey ea qa = Some k" "getCacheKey eb qb = Some k" "k \<noteq> []"
      and first: "getWeatherData ea ta qa c = (Inr r, ca, reqs)" "reqs \<noteq> []"
      and soon: "atLookup tb < atStore ta + CACHE_TTL_MS"
  proof -
    have stored: "ca k = Some \<lparr>data = r, expiry = atStore ta + CACHE_TTL_MS\<rparr>"
    proof (cases "\<exists>ent. c k = Some ent \<and> atLookup ta < expiry ent")
      case True
      then obtain ent where ent: "c k = Some ent" "atLookup ta < expiry ent"
        by blast
      have "getWeatherData ea ta qa c = (Inr (data ent), c, [])"
        using k(1) k(3) ent by (rule getWeatherData_hit [of ea qa k c ent ta])
      with first show ?thesis
        by simp
    next
      case False
      then have "c k = None \<or> (\<exists>ent. c k = Some ent \<and> expiry ent \<le> atLookup ta)"
        by (cases "c k") (auto simp: not_less)
      with k(1) k(3) have "getWeatherData ea ta qa c =
           (case getWeatherDataFlow ea (atFlow ta) qa of
              (Inl err, reqs) \<Rightarrow> (Inl err, c(k := None), reqs)
            | (Inr r, reqs) \<Rightarrow> (Inr r, setCachedWeather (atStore ta) k r (c(k := None)), reqs))"
        by (rule getWeatherData_miss [of ea qa k c ta])
      with first(1) show ?thesis
        by (cases "getWeatherDataFlow ea (atFlow ta) qa"; cases "fst (getWeatherDataFlow ea (atFlow ta) qa)")
          (auto simp: setCachedWeather_def)
    qed
    have "atLookup tb < expiry \<lparr>data = r, expiry = atStore ta + CACHE_TTL_MS\<rparr>"
      using soon by simp
    with k(2) k(3) stored
    have "getWeatherData eb tb qb ca =
        (Inr (data \<lparr>data = r, expiry = atStore ta + CACHE_TTL_MS\<rparr>), ca, [])"
      by (rule getWeatherData_hit [of eb qb k ca _ tb])
    then show ?thesis
      by simp
  qed
  from byName byCoords a b hit london_key [of e] nbsp_london_key [of e] show ?thesis
    by blast
qed

theorem cache_key_derivation_witness:
  "location \<lparr>location = Some (utf16 ''  London  ''), lat = None, lon = None\<rparr> = Some (utf16 ''  London  '')
   \<and> toLowerCase (unicodeLowerCase okEnv) (trim (utf16 ''  London  '')) = utf16 ''london''
   \<and> getCacheKey okEnv \<lparr>location = None, lat = Some 51.507, lon = Some (-0.1278)\<rparr> =
       Some (utf16 (toFixed2 51.507 @ '':'' @ toFixed2 (-0.1278)))
   \<and> getWeatherData okEnv \<lparr>atLookup = 0, atFlow = 0, atStore = 10\<rparr>
        \<lparr>location = None, lat = Some 51.507, lon = Some (-0.1278)\<rparr> Map.empty =
       (Inr parisSnapshot, setCachedWeather 10 (utf16 ''51.51:-0.13'') parisSnapshot Map.empty,
        [CurrentByCoords 51.507 (-0.1278), ForecastByCoords 51.507 (-0.1278)])
   \<and> getWeatherData notFoundEnv \<lparr>atLookup = 299999, atFlow = 299999, atStore = 299999\<rparr>
        \<lparr>location = None, lat = Some 51.5074, lon = Some (-0.12781)\<rparr>
        (setCachedWeather 10 (utf16 ''51.51:-0.13'') parisSnapshot Map.empty) =
       (Inr parisSnapshot, setCachedWeather 10 (utf16 ''51.51:-0.13'') parisSnapshot Map.empty, [])"
proof -
  let ?qL = "\<lparr>location = Some (utf16 ''  London  ''), lat = None, lon = None\<rparr>"
  let ?qA = "\<lparr>location = None, lat = Some 51.507, lon = Some (-0.1278)\<rparr>"
  let ?qB = "\<lparr>location = None, lat = Some 51.5074, lon = Some (-0.12781)\<rparr>"
  let ?t1 = "\<lparr>atLookup = 0, atFlow = 0, atStore = 10\<rparr>"
  let ?t2 = "\<lparr>atLookup = 299999, atFlow = 299999, atStore = 299999\<rparr>"
  let ?k = "utf16 ''51.51:-0.13''"
  let ?c1 = "setCachedWeather 10 ?k parisSnapshot Map.empty"
  let ?reqs = "[CurrentByCoords 51.507 (-0.1278), ForecastByCoords 51.507 (-0.1278)]"
  note inst = cache_key_derivation
    [where q = ?qL and s = "utf16 ''  London  ''" and e = okEnv and qa = ?qA and qb = ?qB
       and k = ?k and ea = okEnv and ta = ?t1 and c = Map.empty and r = parisSnapshot
       and ca = ?c1 and reqs = ?reqs and tb = ?t2 and eb = notFoundEnv]
  note inst' = cache_key_derivation
    [where q = ?qA and la = "51.507" and lo = "-0.1278" and e = okEnv]
  note inst'' = cache_key_derivation [where e = notFoundEnv]
  have ne: "utf16 ''  London  '' \<noteq> []" "?k \<noteq> []"
    by (simp_all add: utf16_def)
  have "getCacheKey okEnv ?qL = Some (toLowerCase (unicodeLowerCase okEnv) (trim (utf16 ''  London  '')))"
    using inst ne by simp
  moreover have "getCacheKey okEnv ?qL = Some (utf16 ''london'')"
    using inst by blast
  ultimately have lower: "toLowerCase (unicodeLowerCase okEnv) (trim (utf16 ''  London  '')) = utf16 ''london''"
    by simp
  have coords: "getCacheKey okEnv ?qA = Some (utf16 (toFixed2 51.507 @ '':'' @ toFixed2 (-0.1278)))"
    using inst' by simp
  have keyA: "getCacheKey okEnv ?qA = Some ?k"
    using inst by blast
  have keyB: "getCacheKey notFoundEnv ?qB = Some ?k"
    using inst'' by blast
  have flow: "getWeatherDataFlow okEnv 0 ?qA = (Inr parisSnapshot, ?reqs)"
    using okEnv_flow [of ?qA "CurrentByCoords 51.507 (-0.1278)"]
    by (simp add: weatherUrl_def forecastUrl_def)
  have first: "getWeatherData okEnv ?t1 ?qA Map.empty = (Inr parisSnapshot, ?c1, ?reqs)"
    using getWeatherData_miss [of okEnv ?qA ?k Map.empty ?t1] keyA ne(2) flow
    by simp
  have soon: "atLookup ?t2 < atStore ?t1 + CACHE_TTL_MS"
    by (simp add: CACHE_TTL_MS_def)
  have second: "getWeatherData notFoundEnv ?t2 ?qB ?c1 = (Inr parisSnapshot, ?c1, [])"
    using inst keyA keyB first soon ne(2) by blast
  from lower coords first second show ?thesis
    by simp
qed

text \<open>
  C6 as it is stated fails for the empty location string: the query has both coordinates,
  so the flow accepts it, and its key is the coordinate key, not the trimmed location.
\<close>

theorem empty_location_key_counterexample:
  "location \<lparr>location = Some [], lat = Some 1, lon = Some 2\<rparr> = Some []
   \<and> GetWeatherDataInputSchema \<lparr>location = Some [], lat = Some 1, lon = Some 2\<rparr>
   \<and> weatherUrl \<lparr>location = Some [], lat = Some 1, lon = Some 2\<rparr> = Some (CurrentByCoords 1 2)
   \<and> getCacheKey okEnv \<lparr>location = Some [], lat = Some 1, lon = Some 2\<rparr> = Some (utf16 ''1.00:2.00'')
   \<and> getCacheKey okEnv \<lparr>location = Some [], lat = Some 1, lon = Some 2\<rparr> \<noteq>
       Some (toLowerCase (unicodeLowerCase okEnv) (trim []))"
  by (simp add: GetWeatherDataInputSchema_def weatherUrl_def getCacheKey_def toFixed2_def
      digits.simps toLowerCase_def trim_def utf16_def)

section \<open>The test of the input\<close>

text \<open>
  C1, as the code has it. An input with neither a location that is not empty nor both
  coordinates fails with the error of the flow's own test; the flow issues no request,
  and \<^verbatim>\<open>getWeatherData\<close> returns that error with the cache as it was. Every other input is
  accepted. With a location that is not empty the current-weather request is made by
  name, also when the input has coordinates as well; when that input has both
  coordinates and the current-weather response is \<^verbatim>\<open>ok\<close>, the forecast request is made
  with the coordinates of the input. With no such location and both coordinates the
  current-weather request is made by those coordinates.
\<close>

theorem invalid_input_fails_before_any_request:
  "(\<not> truthy (location q) \<and> (lat q = None \<or> lon q = None) \<longrightarrow>
      getWeatherDataFlow e now q = (Inl MissingLocationError, [])
      \<and> getWeatherData e clk q c = (Inl MissingLocationError, c, []))
   \<and> (location q = Some s \<and> s \<noteq> [] \<longrightarrow>
      fst (getWeatherDataFlow e now q) \<noteq> Inl MissingLocationError
      \<and> (\<exists>rest. snd (getWeatherDataFlow e now q) = CurrentByName s # rest))
   \<and> (location q = Some s \<and> s \<noteq> [] \<and> lat q = Some la \<and> lon q = Some lo
        \<and> ok (fetchWeather e (CurrentByName s)) \<longrightarrow>
      snd (getWeatherDataFlow e now q) = [CurrentByName s, ForecastByCoords la lo])
   \<and> (\<not> truthy (location q) \<and> lat q = Some la \<and> lon q = Some lo \<longrightarrow>
      fst (getWeatherDataFlow e now q) \<noteq> Inl MissingLocationError
      \<and> (\<exists>rest. snd (getWeatherDataFlow e now q) = CurrentByCoords la lo # rest))"
proof -
  have bad: "getWeatherDataFlow e now q = (Inl MissingLocationError, [])
      \<and> getWeatherData e clk q c = (Inl MissingLocationError, c, [])"
    if "\<not> truthy (location q)" "lat q = None \<or> lon q = None"
  proof -
    have invalid: "\<not> GetWeatherDataInputSchema q"
      using that by (auto simp: GetWeatherDataInputSchema_def)
    then have "getCacheKey e q = None"
      using getCacheKey_schema [of e q] by simp
    then have "\<not> truthy (getCacheKey e q)"
      by simp
    from getWeatherData_no_key [OF this, of clk c] flow_invalid [OF invalid] show ?thesis
      by simp
  qed
  have byName: "fst (getWeatherDataFlow e now q) \<noteq> Inl MissingLocationError
      \<and> (\<exists>rest. snd (getWeatherDataFlow e now q) = CurrentByName s # rest)"
    if "location q = Some s" "s \<noteq> []"
  proof -
    have url: "weatherUrl q = Some (CurrentByName s)"
      using that by (simp add: weatherUrl_def)
    from flow_requests [OF url, of e now] flow_not_invalid [OF url, of e now] show ?thesis
      by simp
  qed
  have both: "snd (getWeatherDataFlow e now q) = [CurrentByName s, ForecastByCoords la lo]"
    if "location q = Some s" "s \<noteq> []" "lat q = Some la" "lon q = Some lo"
      "ok (fetchWeather e (CurrentByName s))"
  proof -
    have url: "weatherUrl q = Some (CurrentByName s)"
      using that by (simp add: weatherUrl_def)
    from flow_both_requests [OF url that(5), of now] that(3,4) show ?thesis
      by (simp add: forecastUrl_def)
  qed
  have byCoords: "fst (getWeatherDataFlow e now q) \<noteq> Inl MissingLocationError
      \<and> (\<exists>rest. snd (getWeatherDataFlow e now q) = CurrentByCoords la lo # rest)"
    if "\<not> truthy (location q)" "lat q = Some la" "lon q = Some lo"
  proof -
    have url: "weatherUrl q = Some (CurrentByCoords la lo)"
      using that by (simp add: weatherUrl_def)
    from flow_requests [OF url, of e now] flow_not_invalid [OF url, of e now] show ?thesis
      by simp
  qed
  from bad byName both byCoords show ?thesis
    by blast
qed

theorem invalid_input_fails_before_any_request_witness:
  "getWeatherDataFlow okEnv 0 \<lparr>location = None, lat = Some 5, lon = None\<rparr> =
     (Inl MissingLocationError, [])
   \<and> getWeatherData okEnv \<lparr>atLookup = 0, atFlow = 0, atStore = 0\<rparr>
        \<lparr>location = None, lat = Some 5, lon = None\<rparr> Map.empty =
     (Inl MissingLocationError, Map.empty, [])
   \<and> fst (getWeatherDataFlow okEnv 0 parisQuery) \<noteq> Inl MissingLocationError
   \<and> snd (getWeatherDataFlow okEnv 0
        \<lparr>location = Some (utf16 ''London''), lat = Some 51.5, lon = Some (-0.12)\<rparr>) =
     [CurrentByName (utf16 ''London''), ForecastByCoords 51.5 (-0.12)]
   \<and> fst (getWeatherDataFlow okEnv 0 \<lparr>location = None, lat = Some 1, lon = Some 2\<rparr>) \<noteq>
       Inl MissingLocationError"
proof -
  have ne: "utf16 ''London'' \<noteq> []" "utf16 ''Paris'' \<noteq> []"
    by (simp_all add: utf16_def)
  have okay: "ok (fetchWeather okEnv url)" for url
    by (simp add: okEnv_def)
  have a: "getWeatherDataFlow okEnv 0 \<lparr>location = None, lat = Some 5, lon = None\<rparr> =
       (Inl MissingLocationError, [])
     \<and> getWeatherData okEnv \<lparr>atLookup = 0, atFlow = 0, atStore = 0\<rparr>
        \<lparr>location = None, lat = Some 5, lon = None\<rparr> Map.empty =
       (Inl MissingLocationError, Map.empty, [])"
    using invalid_input_fails_before_any_request
      [where q = "\<lparr>location = None, lat = Some 5, lon = None\<rparr>" and e = okEnv and now = 0
         and clk = "\<lparr>atLookup = 0, atFlow = 0, atStore = 0\<rparr>" and c = Map.empty]
    by simp
  have b: "fst (getWeatherDataFlow okEnv 0 parisQuery) \<noteq> Inl MissingLocationError"
    using invalid_input_fails_before_any_request
      [where q = parisQuery and s = "utf16 ''Paris''" and e = okEnv and now = 0] ne
    by (simp add: parisQuery_def)
  have c: "snd (getWeatherDataFlow okEnv 0
        \<lparr>location = Some (utf16 ''London''), lat = Some 51.5, lon = Some (-0.12)\<rparr>) =
     [CurrentByName (utf16 ''London''), ForecastByCoords 51.5 (-0.12)]"
    using invalid_input_fails_before_any_request
      [where q = "\<lparr>location = Some (utf16 ''London''), lat = Some 51.5, lon = Some (-0.12)\<rparr>"
         and s = "utf16 ''London''" and la = "51.5" and lo = "-0.12" and e = okEnv and now = 0]
      ne okay
    by simp
  have d: "fst (getWeatherDataFlow okEnv 0 \<lparr>location = None, lat = Some 1, lon = Some 2\<rparr>) \<noteq>
       Inl MissingLocationError"
    using invalid_input_fails_before_any_request
      [where q = "\<lparr>location = None, lat = Some 1, lon = Some 2\<rparr>" and la = 1 and lo = 2
         and e = okEnv and now = 0]
    by simp
  from a b c d show ?thesis
    by simp
qed

text \<open>
  C1 as it is stated fails for an input with a location and both coordinates: it is not
  of exactly one form, it passes the test of the input, and the flow fetches and returns a
  snapshot.
\<close>

theorem both_forms_counterexample:
  "\<not> exactlyOneForm \<lparr>location = Some (utf16 ''London''), lat = Some 51.5, lon = Some (-0.12)\<rparr>
   \<and> GetWeatherDataInputSchema \<lparr>location = Some (utf16 ''London''), lat = Some 51.5, lon = Some (-0.12)\<rparr>
   \<and> getWeatherDataFlow okEnv 0 \<lparr>location = Some (utf16 ''London''), lat = Some 51.5, lon = Some (-0.12)\<rparr> =
       (Inr parisSnapshot, [CurrentByName (utf16 ''London''), ForecastByCoords 51.5 (-0.12)])"
  using okEnv_flow [of "\<lparr>location = Some (utf16 ''London''), lat = Some 51.5, lon = Some (-0.12)\<rparr>"
      "CurrentByName (utf16 ''London'')"]
  by (simp add: exactlyOneForm_def GetWeatherDataInputSchema_def weatherUrl_def forecastUrl_def
      utf16_def)

section \<open>Provider failures\<close>

lemma getWeatherData_failure:
  assumes "\<not> servedFromCache e clk q c" "getWeatherDataFlow e (atFlow clk) q = (Inl err, reqs)"
  shows "\<exists>c'. getWeatherData e clk q c = (Inl err, c', reqs)
           \<and> (c' = c \<or>
               (\<exists>k ent. getCacheKey e q = Some k \<and> c k = Some ent \<and> expiry ent \<le> atLookup clk
                  \<and> c' = c(k := None)))"
proof (cases "truthy (getCacheKey e q)")
  case False
  from getWeatherData_no_key [OF this, of clk c] assms(2) show ?thesis
    by simp
next
  case True
  then obtain k where k: "getCacheKey e q = Some k" "k \<noteq> []"
    by (cases "getCacheKey e q") auto
  with assms(1) have gone: "c k = None \<or> (\<exists>ent. c k = Some ent \<and> expiry ent \<le> atLookup clk)"
    by (cases "c k") (auto simp: servedFromCache_def not_less)
  with k have call: "getWeatherData e clk q c = (Inl err, c(k := None), reqs)"
    using getWeatherData_miss [of e q k c clk] assms(2) by simp
  from gone show ?thesis
  proof
    assume "c k = None"
    then have "c(k := None) = c"
      by (simp add: fun_upd_idem)
    with call show ?thesis
      by simp
  next
    assume "\<exists>ent. c k = Some ent \<and> expiry ent \<le> atLookup clk"
    with call k(1) show ?thesis
      by blast
  qed
qed

lemma getWeatherData_served:
  assumes "servedFromCache e clk q c"
  shows "\<exists>r. getWeatherData e clk q c = (Inr r, c, [])"
proof -
  from assms obtain k ent where "getCacheKey e q = Some k" "k \<noteq> []" "c k = Some ent"
    "atLookup clk < expiry ent"
    by (auto simp: servedFromCache_def split: option.splits)
  then have "getWeatherData e clk q c = (Inr (data ent), c, [])"
    by (rule getWeatherData_hit [of e q k c ent clk])
  then show ?thesis
    by blast
qed

text \<open>
  C8, as the code has it. When the current-weather response is not \<^verbatim>\<open>ok\<close> the flow fails
  with an error that carries the status and the body text, after that one request; when
  the forecast response is not \<^verbatim>\<open>ok\<close> it fails likewise after both requests. A call of
  \<^verbatim>\<open>getWeatherData\<close> that is not served from the cache then fails with that same error and
  returns no snapshot. After every failed call the cache has no new entry and every live
  entry as before: it is the cache as it was, or the cache without the expired entry of
  the query's own key, which the lookup removed before the flow ran. A call that is served
  from the cache issues no request and returns the cache as it was.
\<close>

theorem upstream_failure_aborts_without_populating:
  "(weatherUrl q = Some url \<and> \<not> ok (fetchWeather e url) \<longrightarrow>
      getWeatherDataFlow e now q =
        (Inl (WeatherRequestFailed (status (fetchWeather e url)) (body_text (fetchWeather e url))),
         [url]))
   \<and> (weatherUrl q = Some url \<and> ok (fetchWeather e url)
        \<and> \<not> ok (fetchForecast e (forecastUrl q (json (fetchWeather e url)))) \<longrightarrow>
      getWeatherDataFlow e now q =
        (Inl (ForecastRequestFailed
               (status (fetchForecast e (forecastUrl q (json (fetchWeather e url)))))
               (body_text (fetchForecast e (forecastUrl q (json (fetchWeather e url)))))),
         [url, forecastUrl q (json (fetchWeather e url))]))
   \<and> (\<not> servedFromCache e clk q c \<and> weatherUrl q = Some url \<and> \<not> ok (fetchWeather e url) \<longrightarrow>
      (\<exists>c'. getWeatherData e clk q c =
          (Inl (WeatherRequestFailed (status (fetchWeather e url)) (body_text (fetchWeather e url))),
           c', [url])
        \<and> (c' = c \<or>
            (\<exists>k ent. getCacheKey e q = Some k \<and> c k = Some ent \<and> expiry ent \<le> atLookup clk
               \<and> c' = c(k := None)))))
   \<and> (\<not> servedFromCache e clk q c \<and> weatherUrl q = Some url \<and> ok (fetchWeather e url)
        \<and> \<not> ok (fetchForecast e (forecastUrl q (json (fetchWeather e url)))) \<longrightarrow>
      (\<exists>c'. getWeatherData e clk q c =
          (Inl (ForecastRequestFailed
                 (status (fetchForecast e (forecastUrl q (json (fetchWeather e url)))))
                 (body_text (fetchForecast e (forecastUrl q (json (fetchWeather e url)))))),
           c', [url, forecastUrl q (json (fetchWeather e url))])
        \<and> (c' = c \<or>
            (\<exists>k ent. getCacheKey e q = Some k \<and> c k = Some ent \<and> expiry ent \<le> atLookup clk
               \<and> c' = c(k := None)))))
   \<and> (getWeatherData e clk q c = (Inl err, c', reqs) \<longrightarrow>
      getWeatherDataFlow e (atFlow clk) q = (Inl err, reqs)
      \<and> (c' = c \<or>
          (\<exists>k ent. getCacheKey e q = Some k \<and> c k = Some ent \<and> expiry ent \<le> atLookup clk
             \<and> c' = c(k := None))))
   \<and> (servedFromCache e clk q c \<longrightarrow> (\<exists>r. getWeatherData e clk q c = (Inr r, c, [])))"
proof -
  have entry: "getWeatherDataFlow e (atFlow clk) q = (Inl err, reqs)
      \<and> (c' = c \<or>
          (\<exists>k ent. getCacheKey e q = Some k \<and> c k = Some ent \<and> expiry ent \<le> atLookup clk
             \<and> c' = c(k := None)))"
    if failed: "getWeatherData e clk q c = (Inl err, c', reqs)"
  proof -
    have notServed: "\<not> servedFromCache e clk q c"
      using getWeatherData_served [of e clk q c] failed by auto
    obtain x y where flow: "getWeatherDataFlow e (atFlow clk) q = (x, y)"
      by (cases "getWeatherDataFlow e (atFlow clk) q")
    show ?thesis
    proof (cases x)
      case (Inl err')
      from getWeatherData_failure [OF notServed flow [unfolded Inl]] failed flow Inl
      show ?thesis
        by auto
    next
      case (Inr r)
      have "fst (getWeatherData e clk q c) = Inr r"
      proof (cases "truthy (getCacheKey e q)")
        case False
        from getWeatherData_no_key [OF this, of clk c] flow Inr show ?thesis
          by simp
      next
        case True
        then obtain k where k: "getCacheKey e q = Some k" "k \<noteq> []"
          by (cases "getCacheKey e q") auto
        with notServed have "c k = None \<or> (\<exists>ent. c k = Some ent \<and> expiry ent \<le> atLookup clk)"
          by (cases "c k") (auto simp: servedFromCache_def not_less)
        with k show ?thesis
          using getWeatherData_miss [of e q k c clk] flow Inr by simp
      qed
      with failed show ?thesis
        by simp
    qed
  qed
  have weather: "\<exists>c'. getWeatherData e clk q c =
          (Inl (WeatherRequestFailed (status (fetchWeather e url)) (body_text (fetchWeather e url))),
           c', [url])
        \<and> (c' = c \<or>
            (\<exists>k ent. getCacheKey e q = Some k \<and> c k = Some ent \<and> expiry ent \<le> atLookup clk
               \<and> c' = c(k := None)))"
    if "\<not> servedFromCache e clk q c" "weatherUrl q = Some url" "\<not> ok (fetchWeather e url)"
    using getWeatherData_failure [OF that(1) flow_weather_failed [OF that(2,3), of "atFlow clk"]] .
  have forecast: "\<exists>c'. getWeatherData e clk q c =
          (Inl (ForecastRequestFailed
                 (status (fetchForecast e (forecastUrl q (json (fetchWeather e url)))))
                 (body_text (fetchForecast e (forecastUrl q (json (fetchWeather e url)))))),
           c', [url, forecastUrl q (json (fetchWeather e url))])
        \<and> (c' = c \<or>
            (\<exists>k ent. getCacheKey e q = Some k \<and> c k = Some ent \<and> expiry ent \<le> atLookup clk
               \<and> c' = c(k := None)))"
    if "\<not> servedFromCache e clk q c" "weatherUrl q = Some url" "ok (fetchWeather e url)"
      "\<not> ok (fetchForecast e (forecastUrl q (json (fetchWeather e url))))"
    using getWeatherData_failure [OF that(1) flow_forecast_failed [OF that(2,3,4), of "atFlow clk"]] .
  from flow_weather_failed [of q url e now] flow_forecast_failed [of q url e now] entry weather
    forecast getWeatherData_served [of e clk q c]
  show ?thesis
    by blast
qed

theorem upstream_failure_aborts_without_populating_witness:
  "getWeatherDataFlow notFoundEnv 0 parisQuery =
     (Inl (WeatherRequestFailed 404 ''city not found''), [CurrentByName (utf16 ''Paris'')])
   \<and> getWeatherDataFlow forecastDownEnv 0 parisQuery =
     (Inl (ForecastRequestFailed 500 ''internal error''),
      [CurrentByName (utf16 ''Paris''), ForecastByCoords 48.85 2.35])
   \<and> \<not> servedFromCache notFoundEnv \<lparr>atLookup = 0, atFlow = 0, atStore = 0\<rparr> parisQuery Map.empty
   \<and> getWeatherData notFoundEnv \<lparr>atLookup = 0, atFlow = 0, atStore = 0\<rparr> parisQuery Map.empty =
     (Inl (WeatherRequestFailed 404 ''city not found''), Map.empty, [CurrentByName (utf16 ''Paris'')])
   \<and> getWeatherData forecastDownEnv \<lparr>atLookup = 0, atFlow = 0, atStore = 0\<rparr> parisQuery Map.empty =
     (Inl (ForecastRequestFailed 500 ''internal error''), Map.empty,
      [CurrentByName (utf16 ''Paris''), ForecastByCoords 48.85 2.35])
   \<and> servedFromCache notFoundEnv \<lparr>atLookup = 0, atFlow = 0, atStore = 0\<rparr> parisQuery
        [utf16 ''paris'' \<mapsto> \<lparr>data = parisSnapshot, expiry = 1\<rparr>]
   \<and> snd (snd (getWeatherData notFoundEnv \<lparr>atLookup = 0, atFlow = 0, atStore = 0\<rparr> parisQuery
        [utf16 ''paris'' \<mapsto> \<lparr>data = parisSnapshot, expiry = 1\<rparr>])) = []"
proof -
  let ?clk = "\<lparr>atLookup = 0, atFlow = 0, atStore = 0\<rparr>"
  let ?url = "CurrentByName (utf16 ''Paris'')"
  let ?live = "[utf16 ''paris'' \<mapsto> \<lparr>data = parisSnapshot, expiry = 1\<rparr>]"
  have url: "weatherUrl parisQuery = Some ?url"
    by (simp add: weatherUrl_def parisQuery_def utf16_def)
  have nf: "\<not> ok (fetchWeather notFoundEnv ?url)"
    "status (fetchWeather notFoundEnv ?url) = 404"
    "body_text (fetchWeather notFoundEnv ?url) = ''city not found''"
    by (simp_all add: notFoundEnv_def okEnv_def)
  have fd: "ok (fetchWeather forecastDownEnv ?url)"
    "forecastUrl parisQuery (json (fetchWeather forecastDownEnv ?url)) = ForecastByCoords 48.85 2.35"
    "\<not> ok (fetchForecast forecastDownEnv (ForecastByCoords 48.85 2.35))"
    "status (fetchForecast forecastDownEnv (ForecastByCoords 48.85 2.35)) = 500"
    "body_text (fetchForecast forecastDownEnv (ForecastByCoords 48.85 2.35)) = ''internal error''"
    by (simp_all add: forecastDownEnv_def okEnv_def forecastUrl_def parisQuery_def parisWeather_def)
  have cold: "\<not> servedFromCache e ?clk parisQuery Map.empty" for e
    by (simp add: servedFromCache_def paris_key)
  have warm: "servedFromCache notFoundEnv ?clk parisQuery ?live"
    by (simp add: servedFromCache_def paris_key paris_key_not_empty)
  note inst1 = upstream_failure_aborts_without_populating
    [where q = parisQuery and url = ?url and e = notFoundEnv and now = 0 and clk = ?clk
       and c = Map.empty]
  note inst2 = upstream_failure_aborts_without_populating
    [where q = parisQuery and url = ?url and e = forecastDownEnv and now = 0 and clk = ?clk
       and c = Map.empty]
  note inst3 = upstream_failure_aborts_without_populating
    [where q = parisQuery and url = ?url and e = notFoundEnv and now = 0 and clk = ?clk
       and c = ?live and err = MissingLocationError and c' = Map.empty and reqs = "[]"]
  have a: "getWeatherDataFlow notFoundEnv 0 parisQuery =
     (Inl (WeatherRequestFailed 404 ''city not found''), [?url])"
    using inst1 url nf by simp
  have b: "getWeatherDataFlow forecastDownEnv 0 parisQuery =
     (Inl (ForecastRequestFailed 500 ''internal error''), [?url, ForecastByCoords 48.85 2.35])"
    using inst2 url fd by simp
  have c: "getWeatherData notFoundEnv ?clk parisQuery Map.empty =
     (Inl (WeatherRequestFailed 404 ''city not found''), Map.empty, [?url])"
    using inst1 url nf cold [of notFoundEnv] by auto
  have d: "getWeatherData forecastDownEnv ?clk parisQuery Map.empty =
     (Inl (ForecastRequestFailed 500 ''internal error''), Map.empty,
      [?url, ForecastByCoords 48.85 2.35])"
    using inst2 url fd cold [of forecastDownEnv] by auto
  have "\<exists>r. getWeatherData notFoundEnv ?clk parisQuery ?live = (Inr r, ?live, [])"
    using inst3 warm by blast
  then have e: "snd (snd (getWeatherData notFoundEnv ?clk parisQuery ?live)) = []"
    by auto
  from a b c d e cold [of notFoundEnv] warm show ?thesis
    by simp
qed

text \<open>
  C8 as it is stated fails where the cache holds an expired entry for the key: the call
  fails with the provider's 404, and the cache it leaves is not the cache it found.
\<close>

theorem failed_call_changes_cache_counterexample:
  "getWeatherData notFoundEnv \<lparr>atLookup = 1000, atFlow = 1000, atStore = 1000\<rparr> parisQuery
      [utf16 ''paris'' \<mapsto> \<lparr>data = parisSnapshot, expiry = 0\<rparr>] =
     (Inl (WeatherRequestFailed 404 ''city not found''), Map.empty, [CurrentByName (utf16 ''Paris'')])
   \<and> [utf16 ''paris'' \<mapsto> \<lparr>data = parisSnapshot, expiry = 0\<rparr>] \<noteq> Map.empty"
proof -
  have url: "weatherUrl parisQuery = Some (CurrentByName (utf16 ''Paris''))"
    by (simp add: weatherUrl_def parisQuery_def utf16_def)
  have nf: "getWeatherDataFlow notFoundEnv 1000 parisQuery =
     (Inl (WeatherRequestFailed 404 ''city not found''), [CurrentByName (utf16 ''Paris'')])"
    using flow_weather_failed [OF url, of notFoundEnv 1000]
    by (simp add: notFoundEnv_def okEnv_def)
  show ?thesis
    using getWeatherData_miss [of notFoundEnv parisQuery "utf16 ''paris''"
        "[utf16 ''paris'' \<mapsto> \<lparr>data = parisSnapshot, expiry = 0\<rparr>]"
        "\<lparr>atLookup = 1000, atFlow = 1000, atStore = 1000\<rparr>"]
      paris_key [of notFoundEnv] paris_key_not_empty nf
    by simp
qed

section \<open>Conditions\<close>

lemma mapWeatherCondition_table:
  "mapWeatherCondition ''Clear'' = Condition Sunny"
  "mapWeatherCondition ''Clouds'' = Condition Cloudy"
  "mapWeatherCondition ''Rain'' = Condition Rainy"
  "mapWeatherCondition ''Drizzle'' = Condition Rainy"
  "mapWeatherCondition ''Snow'' = Condition Snowy"
  "mapWeatherCondition ''Thunderstorm'' = Condition Thunderstorm"
  "mapWeatherCondition ''Mist'' = Condition Fog"
  "mapWeatherCondition ''Fog'' = Condition Fog"
  "mapWeatherCondition ''Haze'' = Condition Haze"
  by (simp_all add: mapWeatherCondition_def mapping_def)

lemma mapWeatherCondition_default:
  assumes "main \<notin> fst ` set mapping" "main \<notin> set objectPrototypeKeys"
  shows "mapWeatherCondition main = Condition Sunny"
proof -
  have "map_of mapping main = None"
    using assms(1) by (simp add: map_of_eq_None_iff)
  with assms(2) show ?thesis
    by (simp add: mapWeatherCondition_def)
qed

lemma mapWeatherCondition_tornado: "mapWeatherCondition ''Tornado'' = Condition Sunny"
  by (simp add: mapWeatherCondition_def mapping_def objectPrototypeKeys_def)

lemma paris_scenario:
  "\<exists>out reqs. getWeatherDataFlow okEnv 0 parisQuery = (Inr out, reqs)
     \<and> wd_weather_main parisWeather = ''Rain'' \<and> wd_temp parisWeather = 18.4
     \<and> o_condition out = Condition Rainy \<and> o_temperature out = 18"
  by (simp add: paris_flow_0 paris_snapshot parisWeather_def)

text \<open>
  C7 at the provider string \<open>constructor\<close>: the string is not in the table, and the lookup
  \<^verbatim>\<open>mapping[main]\<close> finds the property that the object literal inherits, so the function
  returns that property and not \<open>Sunny\<close>; the flow then ends in the error of the output
  schema.
\<close>

theorem inherited_property_is_not_sunny:
  "map_of mapping ''constructor'' = None
   \<and> mapWeatherCondition ''constructor'' = Inherited ''constructor''
   \<and> mapWeatherCondition ''constructor'' \<noteq> Condition Sunny
   \<and> getWeatherDataFlow
        (okEnv\<lparr>fetchWeather := (\<lambda>_. \<lparr>ok = True, status = 200, body_text = [],
                                       json = parisWeather\<lparr>wd_weather_main := ''constructor''\<rparr>\<rparr>)\<rparr>)
        0 parisQuery =
       (Inl OutputValidationError, [CurrentByName (utf16 ''Paris''), ForecastByCoords 48.85 2.35])"
  by (simp add: mapWeatherCondition_def mapping_def objectPrototypeKeys_def
      getWeatherDataFlow_def weatherUrl_def forecastUrl_def
      GetWeatherDataOutputSchema_def transformedData_def Let_def
      okEnv_def parisQuery_def parisWeather_def utf16_def)

end
